theory Spec2Isabelle
  imports Main
begin

section \<open>JavaScript values and string helpers\<close>

text \<open>
  Strings are \<open>char list\<close>; the model covers the ASCII range, where
  \<open>String.prototype.toLowerCase\<close> maps \<open>A..Z\<close> to \<open>a..z\<close> and leaves the rest.
\<close>

definition toLowerChar :: "char \<Rightarrow> char" where
  "toLowerChar c =
     (case map_of (zip ''ABCDEFGHIJKLMNOPQRSTUVWXYZ'' ''abcdefghijklmnopqrstuvwxyz'') c of
        Some l \<Rightarrow> l
      | None \<Rightarrow> c)"

definition toLowerCase :: "string \<Rightarrow> string" where
  "toLowerCase s = map toLowerChar s"

text \<open>\<open>s.startsWith(p)\<close> and \<open>s.includes(p)\<close> (substring test).\<close>

fun startsWith :: "string \<Rightarrow> string \<Rightarrow> bool" where
  "startsWith s [] = True"
| "startsWith [] (p # ps) = False"
| "startsWith (c # cs) (p # ps) = (c = p \<and> startsWith cs ps)"

fun str_includes :: "string \<Rightarrow> string \<Rightarrow> bool" where
  "str_includes [] p = (p = [])"
| "str_includes (c # cs) p = (startsWith (c # cs) p \<or> str_includes cs p)"

text \<open>
  \<open>xs.slice(start)\<close> with one argument: a negative start counts from the end, and both
  ends are clamped to the array.
\<close>

definition js_slice :: "int \<Rightarrow> 'a list \<Rightarrow> 'a list" where
  "js_slice start xs =
     (let n = int (length xs);
          k = (if start < 0 then max (n + start) 0 else min start n)
      in drop (nat k) xs)"

text \<open>\<open>xs.findIndex(p)\<close>: the first index whose element satisfies \<open>p\<close>; \<open>None\<close> is \<open>-1\<close>.\<close>

fun findIndex :: "('a \<Rightarrow> bool) \<Rightarrow> 'a list \<Rightarrow> nat option" where
  "findIndex p [] = None"
| "findIndex p (x # xs) =
     (if p x then Some 0 else (case findIndex p xs of None \<Rightarrow> None | Some i \<Rightarrow> Some (Suc i)))"

text \<open>
  Values of type \<open>any\<close>: JSON-like data. Numbers are modelled as integers (no
  fractions, no NaN); objects are association lists in insertion order, without the
  prototype chain.
\<close>

datatype jv =
    JUndefined
  | JNull
  | JBool bool
  | JNum int
  | JStr string
  | JArr "jv list"
  | JObj "(string \<times> jv) list"

fun truthy :: "jv \<Rightarrow> bool" where
  "truthy JUndefined = False"
| "truthy JNull = False"
| "truthy (JBool b) = b"
| "truthy (JNum n) = (n \<noteq> 0)"
| "truthy (JStr s) = (s \<noteq> [])"
| "truthy (JArr xs) = True"
| "truthy (JObj kvs) = True"

text \<open>\<open>obj[k]\<close>, \<open>obj[k] = v\<close> and \<open>delete obj[k]\<close> on an object in insertion order.\<close>

definition get_prop :: "(string \<times> jv) list \<Rightarrow> string \<Rightarrow> jv" where
  "get_prop kvs k = (case map_of kvs k of None \<Rightarrow> JUndefined | Some v \<Rightarrow> v)"

fun set_prop :: "'k \<Rightarrow> 'v \<Rightarrow> ('k \<times> 'v) list \<Rightarrow> ('k \<times> 'v) list" where
  "set_prop k v [] = [(k, v)]"
| "set_prop k v (p # ps) = (if fst p = k then (k, v) # ps else p # set_prop k v ps)"

definition delete_prop :: "'k \<Rightarrow> ('k \<times> 'v) list \<Rightarrow> ('k \<times> 'v) list" where
  "delete_prop k kvs = filter (\<lambda>p. fst p \<noteq> k) kvs"

text \<open>\<open>v?.k\<close> on a value of type \<open>any\<close>: only an object has own properties here.\<close>

fun opt_prop :: "jv \<Rightarrow> string \<Rightarrow> jv" where
  "opt_prop (JObj kvs) k = get_prop kvs k"
| "opt_prop v k = JUndefined"

text \<open>A template literal renders a missing (\<open>undefined\<close>) string as \<open>undefined\<close>.\<close>

definition tmpl :: "string option \<Rightarrow> string" where
  "tmpl x = (case x of None \<Rightarrow> ''undefined'' | Some s \<Rightarrow> s)"

text \<open>A thrown \<open>Error\<close>, by its message.\<close>

datatype exn = Error string

fun message :: "exn \<Rightarrow> string" where
  "message (Error m) = m"

section \<open>Core types (\<open>types.ts\<close>)\<close>

datatype severity = Low | Medium | High | Critical

record SystemError =
  timestamp :: string
  error :: string
  severity :: severity
  component :: string
  resolved :: bool

datatype action_type = Connect | Transform | Publish | Notify | ErrorAction

datatype priority = PHigh | PMedium | PLow

text \<open>Values stored under \<open>FrameworkAction.parameters\<close> (a \<open>Record<string, any>\<close>).\<close>

datatype pv =
    PUndefined
  | PStr string
  | PNum int
  | PSeverity severity
  | PErrors "SystemError list"
  | PAny jv
  | PObj "(string \<times> pv) list"

record FrameworkAction =
  atype :: action_type
  target :: string
  parameters :: "(string \<times> pv) list"
  priority :: priority
  dependencies :: "string list"
  action_id :: string

record EmailData =
  subject :: string
  body :: string
  attachments :: "string list"
  sender :: string
  email_timestamp :: string

section \<open>Classifier (\<open>EmailInterpretationService\<close>)\<close>

definition classifyContentType :: "EmailData \<Rightarrow> string" where
  "classifyContentType email =
     (let text = toLowerCase (subject email @ '' '' @ body email) in
      if str_includes text ''blog'' \<or> str_includes text ''article'' \<or> str_includes text ''post''
      then ''article''
      else if str_includes text ''product'' \<or> str_includes text ''item''
              \<or> str_includes text ''listing''
      then ''product''
      else if str_includes text ''update'' \<or> str_includes text ''changes''
              \<or> str_includes text ''modified''
      then ''update''
      else if str_includes text ''announcement'' \<or> str_includes text ''news''
              \<or> str_includes text ''important''
      then ''announcement''
      else ''other'')"

definition determineIntent :: "string \<Rightarrow> string" where
  "determineIntent b =
     (let text = toLowerCase b in
      if str_includes text ''publish now'' \<or> str_includes text ''immediate''
         \<or> str_includes text ''asap''
      then ''immediate''
      else if str_includes text ''schedule'' \<or> str_includes text ''later''
              \<or> str_includes text ''specific time''
      then ''scheduled''
      else if str_includes text ''draft'' \<or> str_includes text ''save''
              \<or> str_includes text ''review first''
      then ''draft''
      else ''immediate'')"

definition extractTargetFrontends :: "string \<Rightarrow> string list" where
  "extractTargetFrontends b =
     (let text = toLowerCase b;
          f1 = (if str_includes text ''main site'' \<or> str_includes text ''website''
                   \<or> str_includes text ''homepage''
                then [''main_site''] else []);
          f2 = (if str_includes text ''developer portal'' \<or> str_includes text ''dev portal''
                   \<or> str_includes text ''api docs''
                then f1 @ [''developer_portal''] else f1);
          f3 = (if str_includes text ''blog'' \<or> str_includes text ''news site''
                then f2 @ [''blog''] else f2);
          frontends = (if str_includes text ''admin panel'' \<or> str_includes text ''dashboard''
                then f3 @ [''admin_panel''] else f3)
      in if length frontends > 0 then frontends else [''all''])"

text \<open>
  The classification part of \<open>interpretEmail\<close>: the three fields of the
  \<open>ProcessedContent\<close> it computes first. The \<open>content\<close> and \<open>media\<close> fields come from
  the regular-expression based extraction and the attachment decoding, which read
  neither of these three results.
\<close>

record Classification =
  c_type :: string
  c_intent :: string
  c_target_frontends :: "string list"

definition interpretEmail :: "EmailData \<Rightarrow> Classification" where
  "interpretEmail email =
     (let contentType = classifyContentType email;
          intent = determineIntent (body email);
          targetFrontends = extractTargetFrontends (body email)
      in \<lparr>c_type = contentType, c_intent = intent, c_target_frontends = targetFrontends\<rparr>)"

section \<open>ErrorCoordinator (\<open>ErrorHandlingService\<close>)\<close>

text \<open>
  Readings of the wall clock, rendered as the template literals render them:
  \<open>new Date().toISOString()\<close> and \<open>Date.now()\<close>. They are inputs of the model; one
  reading serves a whole call.
\<close>

record clock =
  now_iso :: string
  now_ms :: string

text \<open>
  A recovery strategy is a fallible function of the error and the context; its first
  argument is the clock reading that its action ids embed.
\<close>

record RecoveryStrategy =
  strategy_name :: string
  recover :: "string \<Rightarrow> SystemError \<Rightarrow> jv \<Rightarrow> exn + FrameworkAction list"

text \<open>
  \<open>SystemError\<close> objects are shared by reference between the caller and the log, and
  \<open>attemptRecovery\<close> mutates them, so the service state holds an object store
  (\<open>heap\<close>, from references to objects) and the log \<open>errors\<close> is a list of references.
  \<open>fresh\<close> is the next unused reference; \<open>rnd\<close> is the rendering of
  \<open>Math.random().toString(36).substr(2, 9)\<close>. Console output is not modelled here.
\<close>

record ErrorHandlingService = clock +
  rnd :: string
  heap :: "nat \<Rightarrow> SystemError"
  fresh :: nat
  errors :: "nat list"
  recoveryStrategies :: "string \<Rightarrow> RecoveryStrategy option"
  errorThresholds :: "string \<Rightarrow> int option"

definition action ::
  "action_type \<Rightarrow> string \<Rightarrow> (string \<times> pv) list \<Rightarrow> priority \<Rightarrow> string \<Rightarrow> FrameworkAction" where
  "action ty tgt ps pr ident =
     \<lparr>atype = ty, target = tgt, parameters = ps, priority = pr, dependencies = [],
      action_id = ident\<rparr>"

definition emailInterpretationRecovery ::
  "string \<Rightarrow> SystemError \<Rightarrow> jv \<Rightarrow> exn + FrameworkAction list" where
  "emailInterpretationRecovery now e context =
     (let a1 = (if str_includes (error e) ''classification''
                then [action Transform ''EmailInterpretationService''
                        [(''action'', PStr ''retry_classification''),
                         (''fallback_type'', PStr ''other''),
                         (''context'', PAny context)]
                        PMedium (''retry_classification_'' @ now)]
                else []);
          a2 = (if str_includes (error e) ''attachment''
                then [action Transform ''EmailInterpretationService''
                        [(''action'', PStr ''retry_without_attachments''),
                         (''context'', PAny context)]
                        PMedium (''retry_no_attachments_'' @ now)]
                else [])
      in Inr (a1 @ a2))"

definition frontendConnectionRecovery ::
  "string \<Rightarrow> SystemError \<Rightarrow> jv \<Rightarrow> exn + FrameworkAction list" where
  "frontendConnectionRecovery now e context =
     (let a1 = (if str_includes (error e) ''authentication''
                then [action Connect ''FrontendConnectionService''
                        [(''action'', PStr ''retry_with_alt_auth''),
                         (''connection_name'', PAny (opt_prop context ''connection_name'')),
                         (''context'', PAny context)]
                        PHigh (''retry_alt_auth_'' @ now)]
                else []);
          a2 = (if str_includes (error e) ''connection''
                then [action Connect ''FrontendConnectionService''
                        [(''action'', PStr ''retry_with_extended_timeout''),
                         (''connection_name'', PAny (opt_prop context ''connection_name'')),
                         (''timeout'', PNum 30000),
                         (''context'', PAny context)]
                        PMedium (''retry_extended_timeout_'' @ now)]
                else [])
      in Inr (a1 @ a2))"

definition contentTransformationRecovery ::
  "string \<Rightarrow> SystemError \<Rightarrow> jv \<Rightarrow> exn + FrameworkAction list" where
  "contentTransformationRecovery now e context =
     (let a1 = (if str_includes (error e) ''transformation''
                then [action Transform ''ContentTransformationService''
                        [(''action'', PStr ''retry_with_defaults''),
                         (''frontend_name'', PAny (opt_prop context ''frontend_name'')),
                         (''content_type'', PAny (opt_prop context ''content_type'')),
                         (''context'', PAny context)]
                        PMedium (''retry_defaults_'' @ now)]
                else []);
          a2 = (if str_includes (error e) ''mapping''
                then [action Transform ''ContentTransformationService''
                        [(''action'', PStr ''use_fallback_mapping''),
                         (''frontend_name'', PAny (opt_prop context ''frontend_name'')),
                         (''context'', PAny context)]
                        PMedium (''fallback_mapping_'' @ now)]
                else [])
      in Inr (a1 @ a2))"

definition publishingExecutionRecovery ::
  "string \<Rightarrow> SystemError \<Rightarrow> jv \<Rightarrow> exn + FrameworkAction list" where
  "publishingExecutionRecovery now e context =
     (let a1 = (if str_includes (error e) ''HTTP''
                then [action Publish ''PublishingExecutionService''
                        [(''action'', PStr ''retry_with_backoff''),
                         (''frontend_name'', PAny (opt_prop context ''frontend_name'')),
                         (''max_attempts'', PNum 3),
                         (''context'', PAny context)]
                        PHigh (''retry_backoff_'' @ now)]
                else []);
          a2 = (if str_includes (error e) ''timeout''
                then [action Publish ''PublishingExecutionService''
                        [(''action'', PStr ''retry_with_timeout''),
                         (''frontend_name'', PAny (opt_prop context ''frontend_name'')),
                         (''timeout'', PNum 60000),
                         (''context'', PAny context)]
                        PMedium (''retry_timeout_'' @ now)]
                else []);
          a3 = (if str_includes (error e) ''validation''
                then [action Publish ''PublishingExecutionService''
                        [(''action'', PStr ''retry_simplified''),
                         (''frontend_name'', PAny (opt_prop context ''frontend_name'')),
                         (''context'', PAny context)]
                        PMedium (''retry_simplified_'' @ now)]
                else [])
      in Inr (a1 @ a2 @ a3))"

definition initializeRecoveryStrategies ::
  "'a ErrorHandlingService_scheme \<Rightarrow> 'a ErrorHandlingService_scheme" where
  "initializeRecoveryStrategies s =
     s\<lparr>recoveryStrategies := (recoveryStrategies s)
        (''EmailInterpretationService'' \<mapsto>
           \<lparr>strategy_name = ''Email Interpretation Recovery'',
            recover = emailInterpretationRecovery\<rparr>,
         ''FrontendConnectionService'' \<mapsto>
           \<lparr>strategy_name = ''Frontend Connection Recovery'',
            recover = frontendConnectionRecovery\<rparr>,
         ''ContentTransformationService'' \<mapsto>
           \<lparr>strategy_name = ''Content Transformation Recovery'',
            recover = contentTransformationRecovery\<rparr>,
         ''PublishingExecutionService'' \<mapsto>
           \<lparr>strategy_name = ''Publishing Execution Recovery'',
            recover = publishingExecutionRecovery\<rparr>)\<rparr>"

text \<open>The table that \<open>initializeErrorThresholds\<close> writes.\<close>

definition configuredThresholds :: "(string \<times> int) list" where
  "configuredThresholds =
     [(''EmailInterpretationService'', 10),
      (''FrontendConnectionService'', 5),
      (''ContentTransformationService'', 8),
      (''PublishingExecutionService'', 7),
      (''ErrorHandlingService'', 3)]"

definition initializeErrorThresholds ::
  "'a ErrorHandlingService_scheme \<Rightarrow> 'a ErrorHandlingService_scheme" where
  "initializeErrorThresholds s =
     s\<lparr>errorThresholds :=
         fold (\<lambda>(c, t) m. m(c \<mapsto> t)) configuredThresholds (errorThresholds s)\<rparr>"

text \<open>The constructor, on the clock and random readings and an object store.\<close>

definition newErrorHandlingService ::
  "string \<Rightarrow> string \<Rightarrow> string \<Rightarrow> (nat \<Rightarrow> SystemError) \<Rightarrow> nat \<Rightarrow> ErrorHandlingService" where
  "newErrorHandlingService t_iso t_ms r h n =
     initializeErrorThresholds (initializeRecoveryStrategies
       \<lparr>now_iso = t_iso, now_ms = t_ms, rnd = r, heap = h, fresh = n, errors = [],
        recoveryStrategies = Map.empty, errorThresholds = Map.empty\<rparr>)"

definition logError ::
  "nat \<Rightarrow> 'a ErrorHandlingService_scheme \<Rightarrow> 'a ErrorHandlingService_scheme" where
  "logError r s =
     (let es = errors s @ [r]
      in s\<lparr>errors := (if length es > 1000 then js_slice (- 1000) es else es)\<rparr>)"

definition updateErrorStatus ::
  "nat \<Rightarrow> 'a ErrorHandlingService_scheme \<Rightarrow> 'a ErrorHandlingService_scheme" where
  "updateErrorStatus r s =
     (case findIndex (\<lambda>e. timestamp (heap s e) = timestamp (heap s r)
                          \<and> component (heap s e) = component (heap s r)) (errors s) of
        Some index \<Rightarrow> s\<lparr>errors := (errors s)[index := r]\<rparr>
      | None \<Rightarrow> s)"

definition getErrorCount :: "'a ErrorHandlingService_scheme \<Rightarrow> string \<Rightarrow> nat" where
  "getErrorCount s c = length (filter (\<lambda>e. component (heap s e) = c) (errors s))"

definition getRecentErrors :: "'a ErrorHandlingService_scheme \<Rightarrow> string \<Rightarrow> int \<Rightarrow> nat list" where
  "getRecentErrors s c limit =
     (let componentErrors = filter (\<lambda>e. component (heap s e) = c) (errors s)
      in js_slice (- limit) componentErrors)"

definition isErrorThresholdExceeded :: "'a ErrorHandlingService_scheme \<Rightarrow> string \<Rightarrow> bool" where
  "isErrorThresholdExceeded s c =
     (let threshold = (case errorThresholds s c of
                         Some t \<Rightarrow> if t \<noteq> 0 then t else 10
                       | None \<Rightarrow> 10);
          recentErrors = getRecentErrors s c threshold
      in int (length recentErrors) \<ge> threshold)"

text \<open>
  The switch of \<open>getErrorPriority\<close> on the four values of \<open>SystemError.severity\<close>; its
  \<open>default\<close> branch is for strings outside that type.
\<close>

fun getErrorPriority :: "severity \<Rightarrow> priority" where
  "getErrorPriority Critical = PHigh"
| "getErrorPriority High = PHigh"
| "getErrorPriority Medium = PMedium"
| "getErrorPriority Low = PLow"

definition handleThresholdExceeded ::
  "SystemError \<Rightarrow> 'a ErrorHandlingService_scheme \<Rightarrow> FrameworkAction list" where
  "handleThresholdExceeded e s =
     [action ErrorAction ''system''
        [(''error'', PStr (''Error threshold exceeded for '' @ component e @ ''. System paused.'')),
         (''component'', PStr ''ErrorHandlingService''),
         (''severity'', PStr ''critical''),
         (''action'', PStr ''pause_system'')]
        PHigh (''threshold_exceeded_'' @ now_ms s),
      action Notify ''admin''
        [(''message'', PStr (''Critical: Error threshold exceeded for '' @ component e)),
         (''details'', PObj
            [(''error_count'', PNum (int (getErrorCount s (component e)))),
             (''threshold'', (case errorThresholds s (component e) of
                                None \<Rightarrow> PUndefined | Some t \<Rightarrow> PNum t)),
             (''recent_errors'', PErrors (map (heap s) (getRecentErrors s (component e) 5)))])]
        PHigh (''notify_threshold_'' @ now_ms s)]"

text \<open>
  \<open>attemptRecovery\<close>: on success of the strategy the error object is marked resolved
  (in the store, hence in every log entry that refers to it) and \<open>updateErrorStatus\<close>
  runs; a strategy that throws leaves a new high-severity error in the log.
\<close>

definition attemptRecovery ::
  "nat \<Rightarrow> jv \<Rightarrow> 'a ErrorHandlingService_scheme
     \<Rightarrow> FrameworkAction list \<times> 'a ErrorHandlingService_scheme" where
  "attemptRecovery r context s =
     (case recoveryStrategies s (component (heap s r)) of
        None \<Rightarrow> ([], s)
      | Some strategy \<Rightarrow>
          (case recover strategy (now_ms s) (heap s r) context of
             Inr actions \<Rightarrow>
               if length actions > 0
               then (actions,
                     updateErrorStatus r
                       (s\<lparr>heap := (heap s)(r := (heap s r)\<lparr>resolved := True\<rparr>)\<rparr>))
               else (actions, s)
           | Inl recoveryError \<Rightarrow>
               ([], logError (fresh s)
                      (s\<lparr>heap := (heap s)(fresh s :=
                           \<lparr>timestamp = now_iso s,
                            error = ''Recovery failed for '' @ component (heap s r) @ '': ''
                                    @ message recoveryError,
                            severity = High,
                            component = ''ErrorHandlingService'',
                            resolved = False\<rparr>),
                        fresh := Suc (fresh s)\<rparr>))))"

definition handleError ::
  "nat \<Rightarrow> jv \<Rightarrow> 'a ErrorHandlingService_scheme
     \<Rightarrow> FrameworkAction list \<times> 'a ErrorHandlingService_scheme" where
  "handleError r context s =
     (let s1 = logError r s in
      if isErrorThresholdExceeded s1 (component (heap s1 r))
      then (handleThresholdExceeded (heap s1 r) s1, s1)
      else
        (let (recoveryActions, s2) = attemptRecovery r context s1 in
         if length recoveryActions > 0
         then (recoveryActions, s2)
         else ([action ErrorAction ''system''
                  [(''error'', PStr (error (heap s2 r))),
                   (''component'', PStr (component (heap s2 r))),
                   (''severity'', PSeverity (severity (heap s2 r))),
                   (''context'', PAny context)]
                  (getErrorPriority (severity (heap s2 r)))
                  (''error_'' @ now_ms s2 @ ''_'' @ rnd s2)], s2)))"

text \<open>\<open>clearErrors(component?)\<close>: \<open>None\<close> is a call without the argument.\<close>

definition clearErrors ::
  "string option \<Rightarrow> 'a ErrorHandlingService_scheme \<Rightarrow> 'a ErrorHandlingService_scheme" where
  "clearErrors c s =
     (case c of
        Some cname \<Rightarrow>
          if cname \<noteq> []
          then s\<lparr>errors := filter (\<lambda>e. component (heap s e) \<noteq> cname) (errors s)\<rparr>
          else s\<lparr>errors := []\<rparr>
      | None \<Rightarrow> s\<lparr>errors := []\<rparr>)"

definition getErrors :: "string option \<Rightarrow> 'a ErrorHandlingService_scheme \<Rightarrow> SystemError list" where
  "getErrors c s =
     (case c of
        Some cname \<Rightarrow>
          if cname \<noteq> []
          then map (heap s) (filter (\<lambda>e. component (heap s e) = cname) (errors s))
          else map (heap s) (errors s)
      | None \<Rightarrow> map (heap s) (errors s))"

section \<open>Destinations, schemas and requests (\<open>types.ts\<close>)\<close>

text \<open>
  A destination as the services receive it at run time: \<open>validateConnection\<close> tests
  for absent fields, so a string field that is \<open>undefined\<close> is \<open>None\<close>.
\<close>

record FrontendConnection =
  name :: "string option"
  api_endpoint :: "string option"
  auth_type :: "string option"
  credentials :: "string option"
  api_schema :: "string option"
  is_active :: bool
  last_used :: "string option"

text \<open>
  A request-body schema as \<open>parseSchema\<close> builds it; \<open>properties\<close> holds the keys of
  the properties object in order.
\<close>

record RequestBodySchema =
  rb_type :: string
  properties :: "string list option"
  required :: "string list option"

record ApiEndpoint =
  path :: string
  http_method :: string
  description :: string
  endpoint_parameters :: "string list"
  request_body :: "RequestBodySchema option"
  responses :: "(string \<times> string) list"

record Field =
  field_name :: string
  field_type :: string
  field_required :: bool

record ContentType =
  ct_name :: string
  ct_fields :: "Field list"
  validations :: "string list"

record FrontendSchema =
  schema_name :: "string option"
  version :: string
  endpoints :: "ApiEndpoint list"
  content_types :: "ContentType list"

record MediaMetadata =
  alt_text :: "string option"
  caption :: "string option"
  media_size :: "nat option"
  dimensions :: "(nat \<times> nat) option"

record MediaFile =
  filename :: string
  content_type :: string
  data :: string
  metadata :: "MediaMetadata option"

record ProcessedContent =
  type :: string
  intent :: string
  target_frontends :: "string list"
  content :: "(string \<times> jv) list"
  media :: "MediaFile list"

record APIRequest =
  req_method :: string
  url :: string
  headers :: "(string \<times> string) list"
  req_body :: "(string \<times> jv) list"
  auth :: "string option \<times> string option"

text \<open>
  \<open>ProcessingResult\<close> without \<open>execution_time\<close>, a difference of two clock readings
  that no operation reads.
\<close>

record ProcessingResult =
  success :: bool
  processed_content :: ProcessedContent
  api_requests :: "APIRequest list"
  result_errors :: "SystemError list"

section \<open>The environment of the services\<close>

text \<open>
  The network is an input: \<open>net k\<close> is the outcome of the \<open>k\<close>-th call of \<open>fetch\<close>, a
  response (\<open>ok\<close>, status and status text as rendered, and the result of
  \<open>response.json()\<close> re-serialised) or a rejected promise. \<open>trace\<close> records what a
  service does to the outside, in order: timer waits, requests, console lines.
  \<open>url_ok\<close> stands for the platform's \<open>new URL(s)\<close> not throwing, and \<open>openapi_walk\<close>
  for \<open>JSON.parse\<close> followed by the traversal of the untyped OpenAPI document.
\<close>

datatype fetch_outcome =
    Response bool string string "exn + string"
  | NetworkError exn

datatype event =
    Sleep nat
  | Fetch string string "(string \<times> string) list" "(string \<times> jv) list option" "nat option"
  | ConsoleLog string

record env = clock +
  net :: "nat \<Rightarrow> fetch_outcome"
  nfetch :: nat
  trace :: "event list"
  url_ok :: "string \<Rightarrow> bool"
  openapi_walk :: "string \<Rightarrow> exn + FrontendSchema"

definition fetch ::
  "string \<Rightarrow> string \<Rightarrow> (string \<times> string) list \<Rightarrow> (string \<times> jv) list option \<Rightarrow> nat option
     \<Rightarrow> 'a env_scheme \<Rightarrow> fetch_outcome \<times> 'a env_scheme" where
  "fetch u m hs b t w =
     (net w (nfetch w), w\<lparr>nfetch := Suc (nfetch w), trace := trace w @ [Fetch u m hs b t]\<rparr>)"

definition sleep :: "nat \<Rightarrow> 'a env_scheme \<Rightarrow> 'a env_scheme" where
  "sleep d w = w\<lparr>trace := trace w @ [Sleep d]\<rparr>"

definition console_log :: "string \<Rightarrow> 'a env_scheme \<Rightarrow> 'a env_scheme" where
  "console_log m w = w\<lparr>trace := trace w @ [ConsoleLog m]\<rparr>"

fun response_ok :: "fetch_outcome \<Rightarrow> bool" where
  "response_ok (Response ok st stt js) = ok"
| "response_ok (NetworkError e) = False"

text \<open>\<open>s.replace(/\/$/, '')\<close>: one trailing slash is removed.\<close>

definition strip_trailing_slash :: "string \<Rightarrow> string" where
  "strip_trailing_slash s = (if s \<noteq> [] \<and> last s = CHR ''/'' then butlast s else s)"

text \<open>Decimal rendering of integers and \<open>String(v)\<close> on JSON-like values.\<close>

function show_nat :: "nat \<Rightarrow> string" where
  "show_nat n =
     (if n < 10 then [''0123456789'' ! n]
      else show_nat (n div 10) @ [''0123456789'' ! (n mod 10)])"
  by pat_completeness auto
termination
  by (relation "measure (\<lambda>n. n)") auto

definition show_int :: "int \<Rightarrow> string" where
  "show_int i = (if i < 0 then ''-'' @ show_nat (nat (- i)) else show_nat (nat i))"

fun join_comma :: "string list \<Rightarrow> string" where
  "join_comma [] = []"
| "join_comma [x] = x"
| "join_comma (x # y # ys) = x @ '','' @ join_comma (y # ys)"

fun js_String :: "jv \<Rightarrow> string" where
  "js_String JUndefined = ''undefined''"
| "js_String JNull = ''null''"
| "js_String (JBool b) = (if b then ''true'' else ''false'')"
| "js_String (JNum n) = show_int n"
| "js_String (JStr s) = s"
| "js_String (JArr xs) =
     join_comma (map (\<lambda>x. if x = JUndefined \<or> x = JNull then [] else js_String x) xs)"
| "js_String (JObj kvs) = ''[object Object]''"

text \<open>\<open>Object.keys(v).length\<close>.\<close>

fun keys_count :: "jv \<Rightarrow> nat" where
  "keys_count (JObj kvs) = length kvs"
| "keys_count (JArr xs) = length xs"
| "keys_count (JStr s) = length s"
| "keys_count v = 0"

section \<open>Publisher (\<open>PublishingExecutionService\<close>)\<close>

record PublishingExecutionService = env +
  pub_errors :: "SystemError list"
  executionHistory :: "ProcessingResult list"

definition createAuthHeaders :: "FrontendConnection \<Rightarrow> (string \<times> string) list" where
  "createAuthHeaders connection =
     (let hs = [(''Content-Type'', ''application/json''),
                (''User-Agent'', ''LLM-Backend-Framework/1.0'')]
      in if auth_type connection = Some ''api_key''
         then set_prop ''Authorization'' (''Bearer '' @ tmpl (credentials connection)) hs
         else if auth_type connection = Some ''jwt''
         then set_prop ''Authorization'' (''JWT '' @ tmpl (credentials connection)) hs
         else if auth_type connection = Some ''oauth2''
         then set_prop ''Authorization'' (''OAuth '' @ tmpl (credentials connection)) hs
         else hs)"

definition typeToEndpointMap :: "(string \<times> string list) list" where
  "typeToEndpointMap =
     [(''article'', [''/articles'', ''/posts'', ''/content'', ''/blog'']),
      (''product'', [''/products'', ''/items'', ''/listings'']),
      (''update'', [''/updates'', ''/news'', ''/announcements'']),
      (''announcement'', [''/announcements'', ''/news'', ''/updates''])]"

text \<open>
  \<open>typeToEndpointMap\<close> is a plain object literal, so \<open>typeToEndpointMap[contentType]\<close>
  also finds what the object inherits from \<open>Object.prototype\<close>: for these names the
  lookup gives a function (for \<open>__proto__\<close>, the prototype object), which is truthy and
  has no \<open>some\<close> method.
\<close>

definition objectPrototypeMembers :: "string list" where
  "objectPrototypeMembers =
     [''constructor'', ''hasOwnProperty'', ''isPrototypeOf'', ''propertyIsEnumerable'',
      ''toLocaleString'', ''toString'', ''valueOf'', ''__proto__'',
      ''__defineGetter__'', ''__defineSetter__'', ''__lookupGetter__'', ''__lookupSetter__'']"

text \<open>
  \<open>findEndpointForContentType\<close>: the table's own entry, or the \<open>['/content']\<close> fallback
  when the lookup is \<open>undefined\<close>. With an inherited member the callback of
  \<open>endpoints.find\<close> throws a \<open>TypeError\<close> at \<open>possiblePaths.some\<close> on the first endpoint
  (its message is the engine's); with no endpoint the callback never runs and \<open>find\<close>
  returns \<open>undefined\<close>.
\<close>

definition findEndpointForContentType ::
  "FrontendSchema \<Rightarrow> string \<Rightarrow> exn + ApiEndpoint option" where
  "findEndpointForContentType schema contentType =
     (case map_of typeToEndpointMap contentType of
        None \<Rightarrow>
          if contentType \<in> set objectPrototypeMembers
          then (if endpoints schema = [] then Inr None
                else Inl (Error ''possiblePaths.some is not a function''))
          else Inr (List.find (\<lambda>endpoint.
                      list_ex (\<lambda>p. str_includes (path endpoint) p) [''/content'']
                      \<and> http_method endpoint \<in> set [''POST'', ''PUT'', ''PATCH''])
                     (endpoints schema))
      | Some possiblePaths \<Rightarrow>
          Inr (List.find (\<lambda>endpoint.
                 list_ex (\<lambda>p. str_includes (path endpoint) p) possiblePaths
                 \<and> http_method endpoint \<in> set [''POST'', ''PUT'', ''PATCH''])
                (endpoints schema)))"

definition media_entry :: "MediaFile \<Rightarrow> jv" where
  "media_entry m =
     JObj [(''filename'', JStr (filename m)),
           (''content_type'', JStr (content_type m)),
           (''data'', JStr (data m)),
           (''alt_text'', JStr (case metadata m of
                                 None \<Rightarrow> []
                               | Some md \<Rightarrow> (case alt_text md of None \<Rightarrow> [] | Some a \<Rightarrow> a))),
           (''caption'', JStr (case metadata m of
                                None \<Rightarrow> []
                              | Some md \<Rightarrow> (case caption md of None \<Rightarrow> [] | Some a \<Rightarrow> a)))]"

definition prepareRequestBody :: "ProcessedContent \<Rightarrow> ApiEndpoint \<Rightarrow> (string \<times> jv) list" where
  "prepareRequestBody processedContent endpoint =
     (let b0 = fold (\<lambda>(k, v) b. set_prop k v b) (content processedContent) [];
          b1 = (if \<not> truthy (get_prop b0 ''type'')
                then set_prop ''type'' (JStr (type processedContent)) b0 else b0);
          b2 = (if length (media processedContent) > 0
                then set_prop ''media'' (JArr (map media_entry (media processedContent))) b1
                else b1);
          md = get_prop (content processedContent) ''metadata'';
          b3 = (if keys_count (if truthy md then md else JObj []) > 0
                then set_prop ''metadata'' md b2 else b2);
          b4 = set_prop ''publishing_intent'' (JStr (intent processedContent)) b3
      in case request_body endpoint of
           None \<Rightarrow> b4
         | Some rb \<Rightarrow>
             (case properties rb of
                None \<Rightarrow> b4
              | Some props \<Rightarrow>
                  (let requiredFields = (case required rb of None \<Rightarrow> [] | Some r \<Rightarrow> r);
                       f1 = fold (\<lambda>field fb.
                                    if get_prop b4 field \<noteq> JUndefined
                                    then set_prop field (get_prop b4 field) fb else fb)
                                 requiredFields [];
                       f2 = fold (\<lambda>field fb.
                                    if get_prop b4 field \<noteq> JUndefined
                                       \<and> \<not> truthy (get_prop fb field)
                                    then set_prop field (get_prop b4 field) fb else fb)
                                 props f1
                   in f2)))"

text \<open>
  \<open>connection.api_endpoint.replace\<close> on an absent endpoint throws a \<open>TypeError\<close>; its
  message is the engine's.
\<close>

definition baseUrl_of :: "FrontendConnection \<Rightarrow> exn + string" where
  "baseUrl_of connection =
     (case api_endpoint connection of
        None \<Rightarrow> Inl (Error ''Cannot read properties of undefined (reading replace)'')
      | Some ep \<Rightarrow> Inr (strip_trailing_slash ep))"

definition createPostRequest ::
  "ProcessedContent \<Rightarrow> FrontendConnection \<Rightarrow> ApiEndpoint \<Rightarrow> exn + APIRequest" where
  "createPostRequest processedContent connection endpoint =
     (case baseUrl_of connection of
        Inl e \<Rightarrow> Inl e
      | Inr base \<Rightarrow>
          Inr \<lparr>req_method = ''POST'',
               url = base @ path endpoint,
               headers = createAuthHeaders connection,
               req_body = prepareRequestBody processedContent endpoint,
               auth = (auth_type connection, credentials connection)\<rparr>)"

text \<open>
  The identifier appended for PUT and PATCH:
  \<open>content.id || content.metadata?.id || Date.now().toString()\<close>.
\<close>

definition contentId :: "ProcessedContent \<Rightarrow> string \<Rightarrow> string" where
  "contentId processedContent now =
     (let i = get_prop (content processedContent) ''id'';
          m = opt_prop (get_prop (content processedContent) ''metadata'') ''id''
      in if truthy i then js_String i else if truthy m then js_String m else now)"

definition createPutRequest ::
  "ProcessedContent \<Rightarrow> FrontendConnection \<Rightarrow> ApiEndpoint \<Rightarrow> string \<Rightarrow> exn + APIRequest" where
  "createPutRequest processedContent connection endpoint now =
     (case baseUrl_of connection of
        Inl e \<Rightarrow> Inl e
      | Inr base \<Rightarrow>
          Inr \<lparr>req_method = ''PUT'',
               url = base @ path endpoint @ ''/'' @ contentId processedContent now,
               headers = createAuthHeaders connection,
               req_body = prepareRequestBody processedContent endpoint,
               auth = (auth_type connection, credentials connection)\<rparr>)"

definition createPatchRequest ::
  "ProcessedContent \<Rightarrow> FrontendConnection \<Rightarrow> ApiEndpoint \<Rightarrow> string \<Rightarrow> exn + APIRequest" where
  "createPatchRequest processedContent connection endpoint now =
     (case baseUrl_of connection of
        Inl e \<Rightarrow> Inl e
      | Inr base \<Rightarrow>
          Inr \<lparr>req_method = ''PATCH'',
               url = base @ path endpoint @ ''/'' @ contentId processedContent now,
               headers = createAuthHeaders connection,
               req_body = prepareRequestBody processedContent endpoint,
               auth = (auth_type connection, credentials connection)\<rparr>)"

definition generateAPIRequests ::
  "ProcessedContent \<Rightarrow> FrontendConnection \<Rightarrow> FrontendSchema \<Rightarrow> string \<Rightarrow> exn + APIRequest list" where
  "generateAPIRequests processedContent connection schema now =
     (case findEndpointForContentType schema (type processedContent) of
        Inl e \<Rightarrow> Inl e
      | Inr None \<Rightarrow> Inl (Error (''No suitable endpoint found for content type: ''
                                @ type processedContent))
      | Inr (Some endpoint) \<Rightarrow>
          if http_method endpoint = ''POST''
          then (case createPostRequest processedContent connection endpoint of
                  Inl e \<Rightarrow> Inl e | Inr r \<Rightarrow> Inr [r])
          else if http_method endpoint = ''PUT''
          then (case createPutRequest processedContent connection endpoint now of
                  Inl e \<Rightarrow> Inl e | Inr r \<Rightarrow> Inr [r])
          else if http_method endpoint = ''PATCH''
          then (case createPatchRequest processedContent connection endpoint now of
                  Inl e \<Rightarrow> Inl e | Inr r \<Rightarrow> Inr [r])
          else Inl (Error (''Unsupported HTTP method: '' @ http_method endpoint)))"

text \<open>The request as the recovery strategies re-send it, with the 30 second timeout.\<close>

definition fetch_request ::
  "APIRequest \<Rightarrow> 'a env_scheme \<Rightarrow> fetch_outcome \<times> 'a env_scheme" where
  "fetch_request request w =
     fetch (url request) (req_method request) (headers request) (Some (req_body request))
       (Some 30000) w"

text \<open>
  \<open>retryWithBackoff\<close>: the loop over \<open>delays\<close>; each round waits, sends, and returns on
  an \<open>ok\<close> response; the throw follows the last round.
\<close>

fun backoffLoop ::
  "nat list \<Rightarrow> APIRequest \<Rightarrow> 'a env_scheme \<Rightarrow> (exn + unit) \<times> 'a env_scheme" where
  "backoffLoop [] request w = (Inl (Error ''Retry with backoff failed''), w)"
| "backoffLoop (delay # delays) request w =
     (case fetch_request request (sleep delay w) of
        (out, w1) \<Rightarrow> if response_ok out then (Inr (), w1) else backoffLoop delays request w1)"

definition retryWithBackoff ::
  "APIRequest \<Rightarrow> FrontendConnection \<Rightarrow> 'a env_scheme \<Rightarrow> (exn + unit) \<times> 'a env_scheme" where
  "retryWithBackoff request connection w = backoffLoop [1000, 3000, 5000] request w"

fun altAuthLoop ::
  "(string \<times> string) list \<Rightarrow> APIRequest \<Rightarrow> FrontendConnection \<Rightarrow> 'a env_scheme
     \<Rightarrow> (exn + unit) \<times> 'a env_scheme" where
  "altAuthLoop [] request connection w = (Inl (Error ''Alternative authentication failed''), w)"
| "altAuthLoop (a # as) request connection w =
     (let hs0 = delete_prop ''Authorization'' (headers request);
          hs = (if snd a = ''Authorization''
                then set_prop ''Authorization'' (''Bearer '' @ tmpl (credentials connection)) hs0
                else set_prop (snd a) (tmpl (credentials connection)) hs0)
      in case fetch (url request) (req_method request) hs (Some (req_body request))
                (Some 30000) w of
           (out, w1) \<Rightarrow>
             if response_ok out then (Inr (), w1) else altAuthLoop as request connection w1)"

definition retryWithAlternativeAuth ::
  "APIRequest \<Rightarrow> FrontendConnection \<Rightarrow> 'a env_scheme \<Rightarrow> (exn + unit) \<times> 'a env_scheme" where
  "retryWithAlternativeAuth request connection w =
     altAuthLoop [(''api_key'', ''X-API-Key''), (''api_key'', ''Authorization''),
                  (''jwt'', ''Authorization'')] request connection w"

text \<open>
  \<open>retryWithSimplifiedContent\<close> throws only when \<open>fetch\<close> rejects; after a response
  that is not \<open>ok\<close> it returns normally.
\<close>

definition retryWithSimplifiedContent ::
  "APIRequest \<Rightarrow> FrontendConnection \<Rightarrow> 'a env_scheme \<Rightarrow> (exn + unit) \<times> 'a env_scheme" where
  "retryWithSimplifiedContent request connection w =
     (let simplifiedBody =
            fold (\<lambda>field sb.
                    if truthy (get_prop (req_body request) field)
                    then set_prop field (get_prop (req_body request) field) sb else sb)
                 [''title'', ''body'', ''type'', ''name'', ''description''] []
      in case fetch (url request) (req_method request) (headers request) (Some simplifiedBody)
                (Some 30000) w of
           (NetworkError e, w1) \<Rightarrow> (Inl (Error ''Simplified content retry failed''), w1)
         | (Response ok st stt js, w1) \<Rightarrow> (Inr (), w1))"

text \<open>
  The loop of \<open>attemptRecovery\<close> over the strategy closures: \<open>True\<close> when one returned
  without throwing.
\<close>

fun tryStrategies ::
  "('a env_scheme \<Rightarrow> (exn + unit) \<times> 'a env_scheme) list \<Rightarrow> string \<Rightarrow> 'a env_scheme
     \<Rightarrow> bool \<times> 'a env_scheme" where
  "tryStrategies [] cname w = (False, w)"
| "tryStrategies (strategy # rest) cname w =
     (case strategy w of
        (Inr u, w1) \<Rightarrow> (True, console_log (''Recovery successful for '' @ cname) w1)
      | (Inl recoveryError, w1) \<Rightarrow>
          tryStrategies rest cname
            (console_log (''Recovery strategy failed for '' @ cname @ '': ''
                          @ message recoveryError) w1))"

definition attemptRecoveryP ::
  "APIRequest \<Rightarrow> FrontendConnection \<Rightarrow> exn \<Rightarrow> 'a PublishingExecutionService_scheme
     \<Rightarrow> 'a PublishingExecutionService_scheme" where
  "attemptRecoveryP request connection err s =
     (case tryStrategies [retryWithBackoff request connection,
                          retryWithAlternativeAuth request connection,
                          retryWithSimplifiedContent request connection]
             (tmpl (name connection)) s of
        (True, s1) \<Rightarrow> s1
      | (False, s1) \<Rightarrow>
          s1\<lparr>pub_errors := pub_errors s1 @
               [\<lparr>timestamp = now_iso s1,
                 error = ''All recovery strategies failed for '' @ tmpl (name connection)
                         @ '': '' @ message err,
                 severity = Critical,
                 component = ''PublishingExecutionService'',
                 resolved = False\<rparr>]\<rparr>)"

text \<open>What the \<open>try\<close> block of \<open>executeRequests\<close> throws on an outcome, if anything.\<close>

fun request_failure :: "fetch_outcome \<Rightarrow> exn option" where
  "request_failure (Response ok st stt js) =
     (if ok then None else Some (Error (''HTTP '' @ st @ '': '' @ stt)))"
| "request_failure (NetworkError e) = Some e"

fun executeRequests ::
  "APIRequest list \<Rightarrow> FrontendConnection \<Rightarrow> 'a PublishingExecutionService_scheme
     \<Rightarrow> FrontendConnection \<times> 'a PublishingExecutionService_scheme" where
  "executeRequests [] connection s = (connection, s)"
| "executeRequests (request # rest) connection s =
     (case fetch_request request s of
        (out, s1) \<Rightarrow>
          (case request_failure out of
             None \<Rightarrow>
               executeRequests rest (connection\<lparr>last_used := Some (now_iso s1)\<rparr>)
                 (console_log (''Successfully published to '' @ tmpl (name connection)
                               @ '' via '' @ req_method request @ '' '' @ url request) s1)
           | Some err \<Rightarrow>
               executeRequests rest connection
                 (attemptRecoveryP request connection err
                    (s1\<lparr>pub_errors := pub_errors s1 @
                         [\<lparr>timestamp = now_iso s1,
                           error = ''Failed to execute request to '' @ tmpl (name connection)
                                   @ '': '' @ message err,
                           severity = High,
                           component = ''PublishingExecutionService'',
                           resolved = False\<rparr>]\<rparr>))))"

text \<open>
  The body of the inner \<open>try\<close> of \<open>executePublishing\<close> for one destination. The schema
  cache is a \<open>Map\<close>, whose keys may be \<open>undefined\<close>.
\<close>

definition publishTo ::
  "ProcessedContent \<Rightarrow> FrontendConnection \<Rightarrow> (string option \<Rightarrow> FrontendSchema option)
     \<Rightarrow> 'a PublishingExecutionService_scheme
     \<Rightarrow> (exn + APIRequest list) \<times> FrontendConnection \<times> 'a PublishingExecutionService_scheme" where
  "publishTo processedContent connection schemas s =
     (case schemas (name connection) of
        None \<Rightarrow> (Inl (Error (''No schema found for frontend: '' @ tmpl (name connection))),
                 connection, s)
      | Some schema \<Rightarrow>
          (case generateAPIRequests processedContent connection schema (now_ms s) of
             Inl e \<Rightarrow> (Inl e, connection, s)
           | Inr requests \<Rightarrow>
               if intent processedContent = ''immediate''
               then (case executeRequests requests connection s of
                       (connection1, s1) \<Rightarrow> (Inr requests, connection1, s1))
               else (Inr requests, connection, s)))"

text \<open>
  The loop over the target connections, with the accumulators \<open>apiRequests\<close> and
  \<open>errors\<close>; the third component returns the connections as the loop leaves them.
\<close>

fun publishLoop ::
  "FrontendConnection list \<Rightarrow> ProcessedContent \<Rightarrow> (string option \<Rightarrow> FrontendSchema option)
     \<Rightarrow> APIRequest list \<Rightarrow> SystemError list \<Rightarrow> 'a PublishingExecutionService_scheme
     \<Rightarrow> APIRequest list \<times> SystemError list \<times> FrontendConnection list
        \<times> 'a PublishingExecutionService_scheme" where
  "publishLoop [] processedContent schemas apiRequests errs s = (apiRequests, errs, [], s)"
| "publishLoop (connection # rest) processedContent schemas apiRequests errs s =
     (case publishTo processedContent connection schemas s of
        (Inr requests, connection1, s1) \<Rightarrow>
          (case publishLoop rest processedContent schemas (apiRequests @ requests) errs s1 of
             (rs, es, cs, s2) \<Rightarrow> (rs, es, connection1 # cs, s2))
      | (Inl e, connection1, s1) \<Rightarrow>
          (case publishLoop rest processedContent schemas apiRequests
                  (errs @ [\<lparr>timestamp = now_iso s1,
                             error = ''Failed to generate requests for ''
                                     @ tmpl (name connection) @ '': '' @ message e,
                             severity = High,
                             component = ''PublishingExecutionService'',
                             resolved = False\<rparr>]) s1 of
             (rs, es, cs, s2) \<Rightarrow> (rs, es, connection1 # cs, s2)))"

definition targetConnections ::
  "ProcessedContent \<Rightarrow> FrontendConnection list \<Rightarrow> FrontendConnection list" where
  "targetConnections processedContent frontendConnections =
     filter (\<lambda>conn. is_active conn
               \<and> (''all'' \<in> set (target_frontends processedContent)
                  \<or> (case name conn of
                        None \<Rightarrow> False
                      | Some n \<Rightarrow> n \<in> set (target_frontends processedContent))))
       frontendConnections"

definition executePublishing ::
  "ProcessedContent \<Rightarrow> FrontendConnection list \<Rightarrow> (string option \<Rightarrow> FrontendSchema option)
     \<Rightarrow> 'a PublishingExecutionService_scheme
     \<Rightarrow> ProcessingResult \<times> FrontendConnection list \<times> 'a PublishingExecutionService_scheme" where
  "executePublishing processedContent frontendConnections schemas s =
     (let targets = targetConnections processedContent frontendConnections in
      if length targets = 0
      then (let result =
                  \<lparr>success = False,
                   processed_content = processedContent,
                   api_requests = [],
                   result_errors =
                     [\<lparr>timestamp = now_iso s,
                       error = ''Publishing execution failed: ''
                               @ ''No active frontend connections found for publishing'',
                       severity = Critical,
                       component = ''PublishingExecutionService'',
                       resolved = False\<rparr>]\<rparr>
            in (result, targets, s\<lparr>executionHistory := executionHistory s @ [result]\<rparr>))
      else (case publishLoop targets processedContent schemas [] [] s of
              (apiRequests, errs, conns, s1) \<Rightarrow>
                (let result =
                       \<lparr>success = (length errs = 0 \<or> length errs < length targets),
                        processed_content = processedContent,
                        api_requests = apiRequests,
                        result_errors = errs\<rparr>
                 in (result, conns, s1\<lparr>executionHistory := executionHistory s1 @ [result]\<rparr>))))"

section \<open>ConnectionManager (\<open>FrontendConnectionService\<close>)\<close>

text \<open>
  The two caches are \<open>Map\<close>s keyed by \<open>connection.name\<close>. A stored connection is the
  caller's object, so the cache holds it as \<open>manageConnection\<close> leaves it.
\<close>

record FrontendConnectionService = env +
  connections :: "string option \<Rightarrow> FrontendConnection option"
  schemas :: "string option \<Rightarrow> FrontendSchema option"
  conn_errors :: "SystemError list"

definition connError :: "string \<Rightarrow> severity \<Rightarrow> string \<Rightarrow> SystemError" where
  "connError now sev msg =
     \<lparr>timestamp = now, error = msg, severity = sev,
      component = ''FrontendConnectionService'', resolved = False\<rparr>"

text \<open>\<open>connection[field]\<close> for the names that \<open>validateConnection\<close> reads.\<close>

definition field_value :: "FrontendConnection \<Rightarrow> string \<Rightarrow> string option" where
  "field_value connection field =
     (if field = ''name'' then name connection
      else if field = ''api_endpoint'' then api_endpoint connection
      else if field = ''auth_type'' then auth_type connection
      else if field = ''credentials'' then credentials connection
      else None)"

text \<open>\<open>!v\<close> on a string that may be absent.\<close>

definition falsy_string :: "string option \<Rightarrow> bool" where
  "falsy_string v = (v = None \<or> v = Some [])"

definition validateConnection ::
  "FrontendConnection \<Rightarrow> 'a FrontendConnectionService_scheme
     \<Rightarrow> bool \<times> 'a FrontendConnectionService_scheme" where
  "validateConnection connection s =
     (case List.find (\<lambda>field. falsy_string (field_value connection field))
             [''name'', ''api_endpoint'', ''auth_type'', ''credentials''] of
        Some field \<Rightarrow>
          (False, s\<lparr>conn_errors := conn_errors s @
                      [connError (now_iso s) High (''Missing required field: '' @ field)]\<rparr>)
      | None \<Rightarrow>
          if auth_type connection \<notin> set [Some ''oauth2'', Some ''api_key'', Some ''jwt'']
          then (False, s\<lparr>conn_errors := conn_errors s @
                      [connError (now_iso s) High
                         (''Invalid auth type: '' @ tmpl (auth_type connection))]\<rparr>)
          else if \<not> url_ok s (tmpl (api_endpoint connection))
          then (False, s\<lparr>conn_errors := conn_errors s @
                      [connError (now_iso s) High
                         (''Invalid API endpoint URL: '' @ tmpl (api_endpoint connection))]\<rparr>)
          else (True, s))"

definition testConnection ::
  "FrontendConnection \<Rightarrow> 'a FrontendConnectionService_scheme
     \<Rightarrow> bool \<times> 'a FrontendConnectionService_scheme" where
  "testConnection connection s =
     (case fetch (tmpl (api_endpoint connection)) ''GET'' (createAuthHeaders connection) None
             (Some 10000) s of
        (Response ok st stt js, s1) \<Rightarrow> (ok, s1)
      | (NetworkError e, s1) \<Rightarrow>
          (False, s1\<lparr>conn_errors := conn_errors s1 @
                       [connError (now_iso s1) Medium
                          (''Connection test failed for '' @ tmpl (name connection) @ '': ''
                           @ message e)]\<rparr>))"

definition extractContentTypes :: "ApiEndpoint list \<Rightarrow> ContentType list" where
  "extractContentTypes eps =
     (let hasArticles = list_ex (\<lambda>e. str_includes (path e) ''article''
                                     \<or> str_includes (path e) ''post'') eps;
          hasProducts = list_ex (\<lambda>e. str_includes (path e) ''product'') eps;
          c1 = (if hasArticles
                then [\<lparr>ct_name = ''article'',
                       ct_fields =
                         [\<lparr>field_name = ''title'', field_type = ''string'', field_required = True\<rparr>,
                          \<lparr>field_name = ''body'', field_type = ''string'', field_required = True\<rparr>,
                          \<lparr>field_name = ''author'', field_type = ''string'', field_required = False\<rparr>,
                          \<lparr>field_name = ''published_at'', field_type = ''string'',
                           field_required = False\<rparr>],
                       validations = []\<rparr>]
                else []);
          c2 = (if hasProducts
                then [\<lparr>ct_name = ''product'',
                       ct_fields =
                         [\<lparr>field_name = ''name'', field_type = ''string'', field_required = True\<rparr>,
                          \<lparr>field_name = ''description'', field_type = ''string'',
                           field_required = True\<rparr>,
                          \<lparr>field_name = ''price'', field_type = ''number'', field_required = True\<rparr>,
                          \<lparr>field_name = ''sku'', field_type = ''string'', field_required = False\<rparr>],
                       validations = []\<rparr>]
                else [])
      in c1 @ c2)"

text \<open>\<open>endpoint.split('/').pop()\<close>: the text after the last slash.\<close>

definition last_segment :: "string \<Rightarrow> string" where
  "last_segment s = rev (takeWhile (\<lambda>c. c \<noteq> CHR ''/'') (rev s))"

fun probeEndpoints ::
  "string list \<Rightarrow> string \<Rightarrow> (string \<times> string) list \<Rightarrow> ApiEndpoint list \<Rightarrow> 'a env_scheme
     \<Rightarrow> ApiEndpoint list \<times> 'a env_scheme" where
  "probeEndpoints [] base hs eps w = (eps, w)"
| "probeEndpoints (endpoint # rest) base hs eps w =
     (case fetch (base @ endpoint) ''GET'' hs None (Some 5000) w of
        (out, w1) \<Rightarrow>
          if response_ok out
          then probeEndpoints rest base hs
                 (eps @ [\<lparr>path = endpoint, http_method = ''GET'',
                           description = ''Get '' @ last_segment endpoint,
                           endpoint_parameters = [], request_body = None,
                           responses = [(''200'', ''array'')]\<rparr>,
                         \<lparr>path = endpoint, http_method = ''POST'',
                           description = ''Create '' @ last_segment endpoint,
                           endpoint_parameters = [], request_body = None,
                           responses = [(''201'', ''object'')]\<rparr>]) w1
          else probeEndpoints rest base hs eps w1)"

definition discoverSchemaByProbing ::
  "FrontendConnection \<Rightarrow> 'a env_scheme \<Rightarrow> (exn + FrontendSchema) \<times> 'a env_scheme" where
  "discoverSchemaByProbing connection w =
     (case baseUrl_of connection of
        Inl e \<Rightarrow> (Inl e, w)
      | Inr base \<Rightarrow>
          (case probeEndpoints [''/api/articles'', ''/api/posts'', ''/api/products'',
                                ''/api/content'', ''/api/items'']
                  base (createAuthHeaders connection) [] w of
             (eps, w1) \<Rightarrow>
               (Inr \<lparr>schema_name = name connection, version = ''1.0.0'', endpoints = eps,
                     content_types = extractContentTypes eps\<rparr>, w1)))"

definition createDefaultSchema :: "string option \<Rightarrow> FrontendSchema" where
  "createDefaultSchema n =
     \<lparr>schema_name = n,
      version = ''1.0.0'',
      endpoints =
        [\<lparr>path = ''/api/content'', http_method = ''POST'', description = ''Create content'',
          endpoint_parameters = [],
          request_body = Some \<lparr>rb_type = ''object'',
                                properties = Some [''title'', ''body'', ''type''],
                                required = Some [''title'', ''body'']\<rparr>,
          responses = [(''201'', ''object'')]\<rparr>],
      content_types =
        [\<lparr>ct_name = ''content'',
          ct_fields =
            [\<lparr>field_name = ''title'', field_type = ''string'', field_required = True\<rparr>,
             \<lparr>field_name = ''body'', field_type = ''string'', field_required = True\<rparr>,
             \<lparr>field_name = ''type'', field_type = ''string'', field_required = False\<rparr>],
          validations = []\<rparr>]\<rparr>"

definition parseOpenAPISchema :: "'a env_scheme \<Rightarrow> string \<Rightarrow> exn + FrontendSchema" where
  "parseOpenAPISchema w openApiSpec =
     (case openapi_walk w openApiSpec of
        Inl e \<Rightarrow> Inl (Error (''Failed to parse OpenAPI spec: '' @ message e))
      | Inr schema \<Rightarrow> Inr schema)"

definition fetchOpenAPISchema ::
  "string \<Rightarrow> 'a env_scheme \<Rightarrow> (exn + FrontendSchema) \<times> 'a env_scheme" where
  "fetchOpenAPISchema schemaUrl w =
     (case fetch schemaUrl ''GET'' [] None None w of
        (NetworkError e, w1) \<Rightarrow> (Inl e, w1)
      | (Response ok st stt (Inl e), w1) \<Rightarrow> (Inl e, w1)
      | (Response ok st stt (Inr openApiSpec), w1) \<Rightarrow> (parseOpenAPISchema w1 openApiSpec, w1))"

text \<open>
  \<open>discoverAPISchema\<close>: the \<open>try\<close> block, then the handler that records the failure and
  falls back to the default schema. An absent \<open>api_schema\<close> throws at \<open>startsWith\<close>.
\<close>

definition discoverAPISchema_try ::
  "FrontendConnection \<Rightarrow> 'a env_scheme \<Rightarrow> (exn + FrontendSchema) \<times> 'a env_scheme" where
  "discoverAPISchema_try connection w =
     (case api_schema connection of
        None \<Rightarrow> (Inl (Error ''Cannot read properties of undefined (reading startsWith)''), w)
      | Some sch \<Rightarrow>
          if startsWith sch ''http'' then fetchOpenAPISchema sch w
          else if startsWith sch ''{'' then (parseOpenAPISchema w sch, w)
          else discoverSchemaByProbing connection w)"

definition discoverAPISchema ::
  "FrontendConnection \<Rightarrow> 'a FrontendConnectionService_scheme
     \<Rightarrow> FrontendSchema \<times> 'a FrontendConnectionService_scheme" where
  "discoverAPISchema connection s =
     (case discoverAPISchema_try connection s of
        (Inr schema, s1) \<Rightarrow> (schema, s1)
      | (Inl e, s1) \<Rightarrow>
          (createDefaultSchema (name connection),
           s1\<lparr>conn_errors := conn_errors s1 @
                [connError (now_iso s1) Medium
                   (''Schema discovery failed for '' @ tmpl (name connection) @ '': ''
                    @ message e)]\<rparr>))"

text \<open>
  \<open>manageConnection\<close>: the \<open>try\<close> block, whose result is what it returns or what it
  throws, and the handler around it. The connection is returned as the call leaves it.
\<close>

definition manageConnection_try ::
  "FrontendConnection \<Rightarrow> 'a FrontendConnectionService_scheme
     \<Rightarrow> (exn + bool) \<times> FrontendConnection \<times> 'a FrontendConnectionService_scheme" where
  "manageConnection_try connection s =
     (case validateConnection connection s of
        (False, s1) \<Rightarrow> (Inr False, connection, s1)
      | (True, s1) \<Rightarrow>
          (case testConnection connection s1 of
             (False, s2) \<Rightarrow> (Inr False, connection, s2)
           | (True, s2) \<Rightarrow>
               (case discoverAPISchema connection s2 of
                  (schema, s3) \<Rightarrow>
                    (let connection1 = connection\<lparr>last_used := Some (now_iso s3),
                                                  is_active := True\<rparr>
                     in (Inr True, connection1,
                         s3\<lparr>connections := (connections s3)(name connection \<mapsto> connection1),
                            schemas := (schemas s3)(name connection \<mapsto> schema)\<rparr>)))))"

definition manageConnection ::
  "FrontendConnection \<Rightarrow> 'a FrontendConnectionService_scheme
     \<Rightarrow> (exn + bool) \<times> FrontendConnection \<times> 'a FrontendConnectionService_scheme" where
  "manageConnection connection s =
     (case manageConnection_try connection s of
        (Inr b, connection1, s1) \<Rightarrow> (Inr b, connection1, s1)
      | (Inl e, connection1, s1) \<Rightarrow>
          (Inr False, connection1,
           s1\<lparr>conn_errors := conn_errors s1 @
                [connError (now_iso s1) High
                   (''Connection management failed for '' @ tmpl (name connection) @ '': ''
                    @ message e)]\<rparr>))"

section \<open>Orchestrator (\<open>FrameworkController\<close>): overall status\<close>

record ContentMapping =
  email_field :: string
  frontend_field :: string
  transformations :: "string list"

record InterpretationResult =
  processedContent :: ProcessedContent
  interpretation_errors :: "SystemError list"

record ConnectionResult =
  activeConnections :: "FrontendConnection list"
  connection_errors :: "SystemError list"

record TransformationResult =
  transformedContents :: "(string \<times> (string \<times> jv) list) list"
  mappings :: "ContentMapping list"
  transformation_errors :: "SystemError list"

record PublishingResult =
  results :: "ProcessingResult list"
  publishing_errors :: "SystemError list"

datatype overall_status = Success | Partial_success | Failure

definition determineOverallStatus ::
  "InterpretationResult \<Rightarrow> ConnectionResult \<Rightarrow> TransformationResult \<Rightarrow> PublishingResult
     \<Rightarrow> overall_status" where
  "determineOverallStatus interpretationResult connectionResult transformationResult
       publishingResult =
     (let totalErrors =
            fold (\<lambda>count acc. acc + count)
              [length (interpretation_errors interpretationResult),
               length (connection_errors connectionResult),
               length (transformation_errors transformationResult),
               length (publishing_errors publishingResult)] 0;
          successfulPublishing = length (filter success (results publishingResult));
          totalPublishing = length (results publishingResult)
      in if totalErrors = 0 \<and> successfulPublishing = totalPublishing then Success
         else if successfulPublishing > 0 \<or> totalErrors < 3 then Partial_success
         else Failure)"

section \<open>Concrete inputs\<close>

text \<open>Error objects and coordinator states used to evaluate the model.\<close>

definition err0 :: SystemError where
  "err0 = \<lparr>timestamp = ''t0'', error = ''recovery failed'', severity = High,
           component = ''ErrorHandlingService'', resolved = False\<rparr>"

definition errA :: SystemError where
  "errA = \<lparr>timestamp = ''t1'', error = ''HTTP 500: Internal Server Error'', severity = High,
           component = ''PublishingExecutionService'', resolved = False\<rparr>"

definition errB :: SystemError where
  "errB = \<lparr>timestamp = ''t2'', error = ''unexpected state'', severity = Low,
           component = ''FrameworkController'', resolved = False\<rparr>"

text \<open>Three logged errors of the coordinator's own component, whose threshold is 3.\<close>

definition ehs0 :: ErrorHandlingService where
  "ehs0 = (newErrorHandlingService ''2024-01-01T00:00:00.000Z'' ''1704067200000'' ''abc123xyz''
             (\<lambda>_. err0) 4)\<lparr>errors := [0, 1, 2]\<rparr>"

text \<open>A log that alternates between two components.\<close>

definition ehs1 :: ErrorHandlingService where
  "ehs1 = (newErrorHandlingService ''2024-01-01T00:00:00.000Z'' ''1704067200000'' ''abc123xyz''
             ((\<lambda>_. errA)(1 := errB, 3 := errB)) 4)\<lparr>errors := [0, 1, 2, 3]\<rparr>"

text \<open>A fresh coordinator whose store holds the two error objects, none logged yet.\<close>

definition ehs2 :: ErrorHandlingService where
  "ehs2 = newErrorHandlingService ''2024-01-01T00:00:00.000Z'' ''1704067200000'' ''abc123xyz''
             ((\<lambda>_. errA)(1 := errB)) 2"

text \<open>A classified article for every destination, and three active destinations.\<close>

definition pc0 :: ProcessedContent where
  "pc0 = \<lparr>type = ''article'', intent = ''immediate'', target_frontends = [''all''],
          content = [(''title'', JStr ''Hello''), (''body'', JStr ''World'')],
          media = []\<rparr>"

definition dest :: "string \<Rightarrow> string \<Rightarrow> bool \<Rightarrow> FrontendConnection" where
  "dest n ep act =
     \<lparr>name = Some n, api_endpoint = Some ep, auth_type = Some ''api_key'',
      credentials = Some ''k-123'', api_schema = Some '''', is_active = act,
      last_used = None\<rparr>"

definition schema0 :: FrontendSchema where
  "schema0 =
     \<lparr>schema_name = Some ''site'', version = ''1.0.0'',
      endpoints = [\<lparr>path = ''/api/articles'', http_method = ''POST'',
                    description = ''Create articles'', endpoint_parameters = [],
                    request_body = None, responses = [(''201'', ''object'')]\<rparr>],
      content_types = []\<rparr>"

definition okResponse :: fetch_outcome where
  "okResponse = Response True ''200'' ''OK'' (Inr ''{}'')"

text \<open>
  A publisher whose network answers the first and the tenth request and refuses every
  other one.
\<close>

definition pes0 :: PublishingExecutionService where
  "pes0 =
     \<lparr>now_iso = ''2024-01-01T00:00:00.000Z'', now_ms = ''1704067200000'',
      net = (\<lambda>k. if k = 0 \<or> k = 9 then okResponse
                  else NetworkError (Error ''connect ECONNREFUSED'')),
      nfetch = 0, trace = [],
      url_ok = (\<lambda>u. True),
      openapi_walk = (\<lambda>d. Inl (Error ''Unexpected end of JSON input'')),
      pub_errors = [], executionHistory = []\<rparr>"

text \<open>Stage results for the orchestrator's status.\<close>

definition stage_i :: InterpretationResult where
  "stage_i = \<lparr>processedContent = pc0, interpretation_errors = []\<rparr>"

definition stage_c :: ConnectionResult where
  "stage_c = \<lparr>activeConnections = [], connection_errors = []\<rparr>"

definition stage_t :: TransformationResult where
  "stage_t = \<lparr>transformedContents = [], mappings = [], transformation_errors = []\<rparr>"

definition stage_p_ok :: PublishingResult where
  "stage_p_ok =
     \<lparr>results = [\<lparr>success = True, processed_content = pc0, api_requests = [],
                   result_errors = []\<rparr>],
      publishing_errors = []\<rparr>"

definition stage_p_failed :: PublishingResult where
  "stage_p_failed =
     \<lparr>results = [\<lparr>success = False, processed_content = pc0, api_requests = [],
                   result_errors = [errA, errA, errA]\<rparr>],
      publishing_errors = [errA, errA, errA]\<rparr>"

definition stage_p_mixed :: PublishingResult where
  "stage_p_mixed =
     \<lparr>results = [\<lparr>success = True, processed_content = pc0, api_requests = [],
                   result_errors = []\<rparr>,
                 \<lparr>success = False, processed_content = pc0, api_requests = [],
                   result_errors = [errA]\<rparr>],
      publishing_errors = [errA]\<rparr>"

definition dests0 :: "FrontendConnection list" where
  "dests0 = [dest ''site_a'' ''https://a.example/'' True,
             dest ''site_b'' ''https://b.example/'' True,
             dest ''site_c'' ''https://c.example'' True]"

text \<open>A schema cache without an entry for \<open>site_b\<close>.\<close>

definition schemas_missing :: "string option \<Rightarrow> FrontendSchema option" where
  "schemas_missing = (\<lambda>n. if n \<in> set [Some ''site_a'', Some ''site_c'']
                           then Some schema0 else None)"

text \<open>A network that answers every request, and one that refuses every request.\<close>

definition pes_up :: PublishingExecutionService where
  "pes_up = pes0\<lparr>net := (\<lambda>k. okResponse)\<rparr>"

definition pes_down :: PublishingExecutionService where
  "pes_down = pes0\<lparr>net := (\<lambda>k. NetworkError (Error ''connect ECONNREFUSED''))\<rparr>"

text \<open>Content whose type names a member that every object inherits.\<close>

definition pc_constructor :: ProcessedContent where
  "pc_constructor = pc0\<lparr>type := ''constructor''\<rparr>"

definition req0 :: APIRequest where
  "req0 =
     \<lparr>req_method = ''POST'', url = ''https://b.example/api/articles'',
      headers = [(''Content-Type'', ''application/json''),
                 (''User-Agent'', ''LLM-Backend-Framework/1.0''),
                 (''Authorization'', ''Bearer k-123'')],
      req_body = [(''title'', JStr ''Hello''), (''body'', JStr ''World''),
                  (''type'', JStr ''article''),
                  (''publishing_intent'', JStr ''immediate'')],
      auth = (Some ''api_key'', Some ''k-123'')\<rparr>"

text \<open>A connection manager with empty caches, and a destination with an unknown auth kind.\<close>

definition fcs0 :: FrontendConnectionService where
  "fcs0 =
     \<lparr>now_iso = ''2024-01-01T00:00:00.000Z'', now_ms = ''1704067200000'',
      net = (\<lambda>k. okResponse), nfetch = 0, trace = [],
      url_ok = (\<lambda>u. startsWith u ''https://''),
      openapi_walk = (\<lambda>d. Inl (Error ''Unexpected end of JSON input'')),
      connections = Map.empty, schemas = Map.empty, conn_errors = []\<rparr>"

definition dest_basic :: FrontendConnection where
  "dest_basic = (dest ''site_a'' ''https://a.example/'' False)\<lparr>auth_type := Some ''basic''\<rparr>"

section \<open>Classifier: properties\<close>

lemma lower_blog_post_text:
  "toLowerCase ''New Blog Post: X content #blog priority: high publish now''
     = ''new blog post: x content #blog priority: high publish now''"
  by (simp add: toLowerCase_def toLowerChar_def)

lemma lower_blog_post_body:
  "toLowerCase ''content #blog priority: high publish now''
     = ''content #blog priority: high publish now''"
  by (simp add: toLowerCase_def toLowerChar_def)

lemma lower_draft_body:
  "toLowerCase ''save as draft for the website'' = ''save as draft for the website''"
  by (simp add: toLowerCase_def toLowerChar_def)

lemma blog_post_type:
  "classifyContentType \<lparr>subject = ''New Blog Post: X'',
       body = ''content #blog priority: high publish now'',
       attachments = a, sender = sd, email_timestamp = ts\<rparr> = ''article''"
  by (simp add: classifyContentType_def lower_blog_post_text Let_def)

lemma blog_post_intent:
  "determineIntent ''content #blog priority: high publish now'' = ''immediate''"
  by (simp add: determineIntent_def lower_blog_post_body Let_def)

lemma blog_post_targets:
  "extractTargetFrontends ''content #blog priority: high publish now'' = [''blog'']"
  by (simp add: extractTargetFrontends_def lower_blog_post_body Let_def)

text \<open>
  Claim C2, as the code has it. For the message with subject \<open>New Blog Post: X\<close> and
  body \<open>content #blog priority: high publish now\<close>, whatever its attachments, sender
  and timestamp, the classifier produces type \<open>article\<close>, intent \<open>immediate\<close> and the
  target list \<open>['blog']\<close>: the hashtag \<open>#blog\<close> in the body contains the destination
  keyword \<open>blog\<close>, so the sentinel \<open>all\<close> is not produced.
\<close>

theorem interpretEmail_blog_post:
  "interpretEmail \<lparr>subject = ''New Blog Post: X'',
                    body = ''content #blog priority: high publish now'',
                    attachments = a, sender = sd, email_timestamp = ts\<rparr>
   = \<lparr>c_type = ''article'', c_intent = ''immediate'', c_target_frontends = [''blog'']\<rparr>"
  by (simp add: interpretEmail_def blog_post_type blog_post_intent blog_post_targets)

theorem interpretEmail_blog_post_witness:
  "c_target_frontends (interpretEmail \<lparr>subject = ''New Blog Post: X'',
                    body = ''content #blog priority: high publish now'',
                    attachments = [], sender = ''editor@example.org'',
                    email_timestamp = ''2024-01-01T00:00:00.000Z''\<rparr>) = [''blog'']"
  by (simp add: interpretEmail_blog_post)

text \<open>
  Claim C2 as stated (type \<open>article\<close>, intent \<open>immediate\<close> and targets \<open>['all']\<close>) fails
  on that message.
\<close>

theorem interpretEmail_blog_post_not_all:
  "\<not> (c_type (interpretEmail \<lparr>subject = ''New Blog Post: X'',
                    body = ''content #blog priority: high publish now'',
                    attachments = [], sender = ''editor@example.org'',
                    email_timestamp = ''2024-01-01T00:00:00.000Z''\<rparr>) = ''article''
      \<and> c_intent (interpretEmail \<lparr>subject = ''New Blog Post: X'',
                    body = ''content #blog priority: high publish now'',
                    attachments = [], sender = ''editor@example.org'',
                    email_timestamp = ''2024-01-01T00:00:00.000Z''\<rparr>) = ''immediate''
      \<and> c_target_frontends (interpretEmail \<lparr>subject = ''New Blog Post: X'',
                    body = ''content #blog priority: high publish now'',
                    attachments = [], sender = ''editor@example.org'',
                    email_timestamp = ''2024-01-01T00:00:00.000Z''\<rparr>) = [''all''])"
  by (simp add: interpretEmail_def blog_post_intent blog_post_targets)

text \<open>
  Claim C9. The classified intent and the target frontends depend only on the body:
  two messages with the same body get the same intent and the same target list,
  whatever their subjects; both are the values of \<open>determineIntent\<close> and
  \<open>extractTargetFrontends\<close> on the body alone.
\<close>

theorem intent_targets_body_only:
  assumes "body e1 = body e2"
  shows "c_intent (interpretEmail e1) = c_intent (interpretEmail e2)
       \<and> c_target_frontends (interpretEmail e1) = c_target_frontends (interpretEmail e2)
       \<and> c_intent (interpretEmail e1) = determineIntent (body e1)
       \<and> c_target_frontends (interpretEmail e1) = extractTargetFrontends (body e1)"
  using assms by (simp add: interpretEmail_def)

theorem intent_targets_body_only_witness:
  "c_intent (interpretEmail \<lparr>subject = ''Product launch'',
       body = ''save as draft for the website'',
       attachments = [], sender = ''a'', email_timestamp = ''t''\<rparr>)
   = c_intent (interpretEmail \<lparr>subject = ''Weekly news'',
       body = ''save as draft for the website'',
       attachments = [], sender = ''a'', email_timestamp = ''t''\<rparr>)
   \<and> c_target_frontends (interpretEmail \<lparr>subject = ''Product launch'',
       body = ''save as draft for the website'',
       attachments = [], sender = ''a'', email_timestamp = ''t''\<rparr>)
   = c_target_frontends (interpretEmail \<lparr>subject = ''Weekly news'',
       body = ''save as draft for the website'',
       attachments = [], sender = ''a'', email_timestamp = ''t''\<rparr>)
   \<and> c_intent (interpretEmail \<lparr>subject = ''Product launch'',
       body = ''save as draft for the website'',
       attachments = [], sender = ''a'', email_timestamp = ''t''\<rparr>) = ''draft''
   \<and> c_target_frontends (interpretEmail \<lparr>subject = ''Product launch'',
       body = ''save as draft for the website'',
       attachments = [], sender = ''a'', email_timestamp = ''t''\<rparr>) = [''main_site'']"
proof -
  let ?e1 = "\<lparr>subject = ''Product launch'', body = ''save as draft for the website'',
       attachments = [], sender = ''a'', email_timestamp = ''t''\<rparr>"
  let ?e2 = "\<lparr>subject = ''Weekly news'', body = ''save as draft for the website'',
       attachments = [], sender = ''a'', email_timestamp = ''t''\<rparr>"
  have b: "body ?e1 = body ?e2" by simp
  have d: "determineIntent ''save as draft for the website'' = ''draft''"
    by (simp add: determineIntent_def lower_draft_body Let_def)
  have t: "extractTargetFrontends ''save as draft for the website'' = [''main_site'']"
    by (simp add: extractTargetFrontends_def lower_draft_body Let_def)
  note th = intent_targets_body_only [OF b]
  have i1: "c_intent (interpretEmail ?e1) = c_intent (interpretEmail ?e2)"
    using th by (rule conjunct1)
  have i2: "c_target_frontends (interpretEmail ?e1) = c_target_frontends (interpretEmail ?e2)"
    using th [THEN conjunct2] by (rule conjunct1)
  have i3: "c_intent (interpretEmail ?e1) = ''draft''"
    using th [THEN conjunct2, THEN conjunct2, THEN conjunct1] d by simp
  have i4: "c_target_frontends (interpretEmail ?e1) = [''main_site'']"
    using th [THEN conjunct2, THEN conjunct2, THEN conjunct2] t by simp
  from i1 i2 i3 i4 show ?thesis by (intro conjI)
qed

section \<open>ErrorCoordinator: properties\<close>

lemma js_slice_neg: "0 < k \<Longrightarrow> js_slice (- k) xs = drop (length xs - nat k) xs"
  by (auto simp: js_slice_def Let_def max_def nat_diff_distrib' intro: arg_cong)

lemma length_js_slice_neg: "0 < k \<Longrightarrow> length (js_slice (- k) xs) = min (nat k) (length xs)"
  by (simp add: js_slice_neg)

text \<open>The log never holds more than 1000 entries once it is within that bound.\<close>

lemma errors_logError:
  "length (errors s) \<le> 1000 \<Longrightarrow>
   errors (logError r s) =
     (if length (errors s) = 1000 then tl (errors s) @ [r] else errors s @ [r])"
  by (cases "errors s") (auto simp: logError_def Let_def js_slice_neg)

lemma heap_logError: "heap (logError r s) = heap s"
  by (simp add: logError_def Let_def)

lemma length_logError:
  "length (errors s) \<le> 1000 \<Longrightarrow> length (errors (logError r s)) \<le> 1000"
  by (cases "errors s") (auto simp: errors_logError)

lemma count_logError:
  assumes "length (errors s) \<le> 1000" "component (heap s r) = c"
  shows "getErrorCount s c \<le> getErrorCount (logError r s) c"
proof (cases "errors s")
  case Nil
  then show ?thesis by (simp add: getErrorCount_def)
next
  case (Cons x xs)
  then show ?thesis using assms
    by (simp add: getErrorCount_def errors_logError heap_logError)
qed

lemma exceeded_iff:
  assumes "errorThresholds s c = Some t" "0 < t"
  shows "isErrorThresholdExceeded s c = (t \<le> int (getErrorCount s c))"
  using assms
  by (auto simp: isErrorThresholdExceeded_def getRecentErrors_def getErrorCount_def Let_def
      length_js_slice_neg)

lemma heap_updateErrorStatus: "heap (updateErrorStatus r s) = heap s"
  by (simp add: updateErrorStatus_def split: option.splits)

lemma attemptRecovery_cases:
  "attemptRecovery r ctx s = (acts, s2) \<Longrightarrow> r \<noteq> fresh s \<Longrightarrow>
     (case recoveryStrategies s (component (heap s r)) of
        None \<Rightarrow> acts = []
      | Some st \<Rightarrow> (case recover st (now_ms s) (heap s r) ctx of
                     Inr as \<Rightarrow> acts = as
                   | Inl e \<Rightarrow> acts = []))
     \<and> severity (heap s2 r) = severity (heap s r)
     \<and> error (heap s2 r) = error (heap s r)
     \<and> component (heap s2 r) = component (heap s r)
     \<and> now_ms s2 = now_ms s \<and> rnd s2 = rnd s"
  by (auto simp: attemptRecovery_def heap_updateErrorStatus heap_logError logError_def Let_def
      updateErrorStatus_def split: option.splits sum.splits if_splits)

text \<open>
  Claim C3. Take a component \<open>c\<close> with a configured threshold \<open>t\<close> (one of the five
  entries of \<open>configuredThresholds\<close>, still in force), a log within its bound of 1000
  entries in which \<open>c\<close> already has at least \<open>t\<close> errors, and an error object \<open>r\<close> of
  component \<open>c\<close>. Then \<open>handleError\<close> returns exactly two actions: the high-priority
  \<open>pause_system\<close> error action, and the high-priority notification to \<open>admin\<close> whose
  details carry the error count, the threshold and the last five logged errors of \<open>c\<close>
  (all of them when there are fewer than five). The only effect on the service is the
  logging of \<open>r\<close>: no recovery strategy runs, the store is unchanged, and \<open>r\<close> is not
  marked resolved.
\<close>

theorem handleError_threshold_reached:
  assumes cfg: "(c, t) \<in> set configuredThresholds"
    and thr: "errorThresholds s c = Some t"
    and cmp: "component (heap s r) = c"
    and reached: "t \<le> int (getErrorCount s c)"
    and bounded: "length (errors s) \<le> 1000"
  shows "handleError r ctx s =
           ([action ErrorAction ''system''
               [(''error'', PStr (''Error threshold exceeded for '' @ c @ ''. System paused.'')),
                (''component'', PStr ''ErrorHandlingService''),
                (''severity'', PStr ''critical''),
                (''action'', PStr ''pause_system'')]
               PHigh (''threshold_exceeded_'' @ now_ms s),
             action Notify ''admin''
               [(''message'', PStr (''Critical: Error threshold exceeded for '' @ c)),
                (''details'', PObj
                   [(''error_count'', PNum (int (getErrorCount (logError r s) c))),
                    (''threshold'', PNum t),
                    (''recent_errors'',
                       PErrors (map (heap s) (js_slice (- 5)
                         (filter (\<lambda>e. component (heap s e) = c) (errors (logError r s))))))])]
               PHigh (''notify_threshold_'' @ now_ms s)],
            logError r s)
         \<and> length (js_slice (- 5) (filter (\<lambda>e. component (heap s e) = c) (errors (logError r s))))
             = min 5 (getErrorCount (logError r s) c)
         \<and> heap (snd (handleError r ctx s)) = heap s
         \<and> resolved (heap (snd (handleError r ctx s)) r) = resolved (heap s r)"
proof -
  have tpos: "0 < t" using cfg by (auto simp: configuredThresholds_def)
  let ?s1 = "logError r s"
  have thr1: "errorThresholds ?s1 c = Some t" using thr by (simp add: logError_def Let_def)
  have "getErrorCount s c \<le> getErrorCount ?s1 c" using bounded cmp by (rule count_logError)
  with reached have "t \<le> int (getErrorCount ?s1 c)" by linarith
  with thr1 tpos have ex: "isErrorThresholdExceeded ?s1 c" by (simp add: exceeded_iff)
  have now1: "now_ms ?s1 = now_ms s" by (simp add: logError_def Let_def)
  have eq: "handleError r ctx s = (handleThresholdExceeded (heap s r) ?s1, ?s1)"
    using ex cmp by (simp add: handleError_def Let_def heap_logError)
  have len: "length (js_slice (- 5) (filter (\<lambda>e. component (heap s e) = c) (errors ?s1)))
             = min 5 (getErrorCount ?s1 c)"
    by (simp add: length_js_slice_neg getErrorCount_def heap_logError)
  show ?thesis
    unfolding eq using len
    by (simp add: handleThresholdExceeded_def cmp thr1 now1 getRecentErrors_def heap_logError
        Let_def)
qed

lemma ehs0_threshold: "errorThresholds ehs0 ''ErrorHandlingService'' = Some 3"
  by (simp add: ehs0_def newErrorHandlingService_def initializeErrorThresholds_def
      initializeRecoveryStrategies_def configuredThresholds_def)

theorem handleError_threshold_reached_witness:
  "length (fst (handleError 3 JUndefined ehs0)) = 2
   \<and> map atype (fst (handleError 3 JUndefined ehs0)) = [ErrorAction, Notify]
   \<and> errors (snd (handleError 3 JUndefined ehs0)) = [0, 1, 2, 3]
   \<and> resolved (heap (snd (handleError 3 JUndefined ehs0)) 3) = False"
proof -
  have cfg: "(''ErrorHandlingService'', 3) \<in> set configuredThresholds"
    by (simp add: configuredThresholds_def)
  have cmp: "component (heap ehs0 3) = ''ErrorHandlingService''"
    by (simp add: ehs0_def newErrorHandlingService_def initializeErrorThresholds_def
        initializeRecoveryStrategies_def err0_def)
  have reached: "3 \<le> int (getErrorCount ehs0 ''ErrorHandlingService'')"
    by (simp add: getErrorCount_def ehs0_def newErrorHandlingService_def
        initializeErrorThresholds_def initializeRecoveryStrategies_def err0_def)
  have bounded: "length (errors ehs0) \<le> 1000" by (simp add: ehs0_def)
  have res: "resolved (heap ehs0 3) = False"
    by (simp add: ehs0_def newErrorHandlingService_def initializeErrorThresholds_def
        initializeRecoveryStrategies_def err0_def)
  have le: "errors (logError 3 ehs0) = [0, 1, 2, 3]"
    by (simp add: logError_def ehs0_def Let_def)
  note th = handleError_threshold_reached [OF cfg ehs0_threshold cmp reached bounded,
      of JUndefined]
  show ?thesis
    unfolding th [THEN conjunct1] using res le by (simp add: action_def heap_logError)
qed

text \<open>
  Claim C8. For every error object \<open>r\<close> already in the store and every context,
  \<open>handleError\<close> returns a non-empty action list. When the threshold test succeeds after
  logging, the list is the pause action followed by the notify action. Below the
  threshold, when a strategy is registered for the component and yields a non-empty
  list, that list is returned. In every other case (no strategy, an empty result, or a
  strategy that throws) the list is the single generic error action for target
  \<open>system\<close>, with priority high for critical and high severity, medium for medium and
  low for low.
\<close>

theorem handleError_actions:
  assumes alloc: "r < fresh s"
  shows "fst (handleError r ctx s) \<noteq> []
    \<and> (isErrorThresholdExceeded (logError r s) (component (heap s r)) \<longrightarrow>
         (\<exists>pause notify. fst (handleError r ctx s) = [pause, notify]
            \<and> atype pause = ErrorAction \<and> target pause = ''system''
            \<and> map_of (parameters pause) ''action'' = Some (PStr ''pause_system'')
            \<and> atype notify = Notify \<and> target notify = ''admin''))
    \<and> (\<not> isErrorThresholdExceeded (logError r s) (component (heap s r)) \<longrightarrow>
         (\<forall>st acts. recoveryStrategies s (component (heap s r)) = Some st
              \<and> recover st (now_ms s) (heap s r) ctx = Inr acts \<and> acts \<noteq> []
            \<longrightarrow> fst (handleError r ctx s) = acts))
    \<and> (\<not> isErrorThresholdExceeded (logError r s) (component (heap s r))
         \<and> \<not> (\<exists>st acts. recoveryStrategies s (component (heap s r)) = Some st
              \<and> recover st (now_ms s) (heap s r) ctx = Inr acts \<and> acts \<noteq> [])
        \<longrightarrow> fst (handleError r ctx s) =
              [action ErrorAction ''system''
                 [(''error'', PStr (error (heap s r))),
                  (''component'', PStr (component (heap s r))),
                  (''severity'', PSeverity (severity (heap s r))),
                  (''context'', PAny ctx)]
                 (case severity (heap s r) of
                    Critical \<Rightarrow> PHigh | High \<Rightarrow> PHigh | Medium \<Rightarrow> PMedium | Low \<Rightarrow> PLow)
                 (''error_'' @ now_ms s @ ''_'' @ rnd s)])"
proof -
  let ?s1 = "logError r s"
  let ?c = "component (heap s r)"
  have h1: "heap ?s1 = heap s" by (rule heap_logError)
  have f1: "fresh ?s1 = fresh s" "recoveryStrategies ?s1 = recoveryStrategies s"
    "now_ms ?s1 = now_ms s" "rnd ?s1 = rnd s"
    by (simp_all add: logError_def Let_def)
  obtain acts s2 where ar: "attemptRecovery r ctx ?s1 = (acts, s2)"
    by (cases "attemptRecovery r ctx ?s1")
  have ne: "r \<noteq> fresh ?s1" using alloc f1 by simp
  note facts = attemptRecovery_cases [OF ar ne, unfolded h1 f1]
  have prio: "getErrorPriority sv = (case sv of
                    Critical \<Rightarrow> PHigh | High \<Rightarrow> PHigh | Medium \<Rightarrow> PMedium | Low \<Rightarrow> PLow)" for sv
    by (cases sv) simp_all
  show ?thesis
  proof (cases "isErrorThresholdExceeded ?s1 ?c")
    case True
    then have "handleError r ctx s = (handleThresholdExceeded (heap s r) ?s1, ?s1)"
      by (simp add: handleError_def Let_def h1)
    then show ?thesis using True
      by (simp add: handleThresholdExceeded_def action_def)
  next
    case False
    then have eq: "fst (handleError r ctx s) =
       (if length acts > 0 then acts
        else [action ErrorAction ''system''
                 [(''error'', PStr (error (heap s r))),
                  (''component'', PStr (component (heap s r))),
                  (''severity'', PSeverity (severity (heap s r))),
                  (''context'', PAny ctx)]
                 (getErrorPriority (severity (heap s r)))
                 (''error_'' @ now_ms s @ ''_'' @ rnd s)])"
      using ar facts by (simp add: handleError_def Let_def h1)
    show ?thesis using False facts
      unfolding eq prio
      by (auto split: option.splits sum.splits)
  qed
qed

lemma ehs2_fields:
  "fresh ehs2 = 2" "errors ehs2 = []" "heap ehs2 0 = errA" "heap ehs2 1 = errB"
  "heap ehs2 (Suc 0) = errB"
  "now_ms ehs2 = ''1704067200000''" "rnd ehs2 = ''abc123xyz''"
  "recoveryStrategies ehs2 ''FrameworkController'' = None"
  "errorThresholds ehs2 ''FrameworkController'' = None"
  by (simp_all add: ehs2_def newErrorHandlingService_def initializeErrorThresholds_def
      initializeRecoveryStrategies_def configuredThresholds_def)

theorem handleError_actions_witness:
  "fst (handleError 1 JUndefined ehs2) =
     [action ErrorAction ''system''
        [(''error'', PStr ''unexpected state''),
         (''component'', PStr ''FrameworkController''),
         (''severity'', PSeverity Low),
         (''context'', PAny JUndefined)]
        PLow ''error_1704067200000_abc123xyz'']
   \<and> fst (handleError 0 JUndefined ehs2) \<noteq> []"
proof -
  have a1: "1 < fresh ehs2" and a0: "0 < fresh ehs2" by (simp_all add: ehs2_fields)
  have cB: "component (heap ehs2 1) = ''FrameworkController''"
    by (simp add: ehs2_fields errB_def)
  have l: "errors (logError (Suc 0) ehs2) = [Suc 0]"
    "heap (logError (Suc 0) ehs2) = heap ehs2"
    "errorThresholds (logError (Suc 0) ehs2) = errorThresholds ehs2"
    by (simp_all add: logError_def Let_def ehs2_fields)
  have nex: "\<not> isErrorThresholdExceeded (logError 1 ehs2) (component (heap ehs2 1))"
    unfolding cB
    by (simp add: isErrorThresholdExceeded_def getRecentErrors_def Let_def l ehs2_fields
        js_slice_def)
  have nost: "\<not> (\<exists>st acts. recoveryStrategies ehs2 (component (heap ehs2 1)) = Some st
              \<and> recover st (now_ms ehs2) (heap ehs2 1) JUndefined = Inr acts \<and> acts \<noteq> [])"
    unfolding cB by (simp add: ehs2_fields)
  have g: "fst (handleError 1 JUndefined ehs2) =
              [action ErrorAction ''system''
                 [(''error'', PStr (error (heap ehs2 1))),
                  (''component'', PStr (component (heap ehs2 1))),
                  (''severity'', PSeverity (severity (heap ehs2 1))),
                  (''context'', PAny JUndefined)]
                 (case severity (heap ehs2 1) of
                    Critical \<Rightarrow> PHigh | High \<Rightarrow> PHigh | Medium \<Rightarrow> PMedium | Low \<Rightarrow> PLow)
                 (''error_'' @ now_ms ehs2 @ ''_'' @ rnd ehs2)]"
    using handleError_actions [OF a1, of JUndefined] nex nost by blast
  have n: "fst (handleError 0 JUndefined ehs2) \<noteq> []"
    using handleError_actions [OF a0, of JUndefined] by blast
  show ?thesis using g n by (simp add: ehs2_fields errB_def)
qed

text \<open>
  Claim C10, as the code has it. \<open>clearErrors(component)\<close> with a non-empty component
  name keeps exactly the logged errors of the other components, unchanged and in their
  order; \<open>clearErrors()\<close> without an argument empties the log, and so does
  \<open>clearErrors('')\<close>, since the guard \<open>if (component)\<close> takes the empty string for an
  absent argument. No error object is modified.
\<close>

theorem clearErrors_frame:
  "(c \<noteq> [] \<longrightarrow>
      errors (clearErrors (Some c) s) = filter (\<lambda>e. component (heap s e) \<noteq> c) (errors s))
   \<and> errors (clearErrors None s) = []
   \<and> errors (clearErrors (Some []) s) = []
   \<and> heap (clearErrors x s) = heap s"
  by (simp add: clearErrors_def split: option.splits)

lemma ehs1_fields:
  "errors ehs1 = [0, 1, 2, 3]"
  "component (heap ehs1 0) = ''PublishingExecutionService''"
  "component (heap ehs1 (Suc 0)) = ''FrameworkController''"
  "component (heap ehs1 2) = ''PublishingExecutionService''"
  "component (heap ehs1 3) = ''FrameworkController''"
  by (simp_all add: ehs1_def newErrorHandlingService_def initializeErrorThresholds_def
      initializeRecoveryStrategies_def errA_def errB_def)

theorem clearErrors_frame_witness:
  "errors (clearErrors (Some ''PublishingExecutionService'') ehs1) = [1, 3]
   \<and> errors (clearErrors (Some ''FrameworkController'') ehs1) = [0, 2]
   \<and> errors (clearErrors None ehs1) = []"
proof -
  have ne: "''PublishingExecutionService'' \<noteq> []" "''FrameworkController'' \<noteq> []"
    by simp_all
  note t1 = clearErrors_frame [of "''PublishingExecutionService''" ehs1, THEN conjunct1,
      rule_format, OF ne(1)]
  note t2 = clearErrors_frame [of "''FrameworkController''" ehs1, THEN conjunct1,
      rule_format, OF ne(2)]
  note t3 = clearErrors_frame [of "''x''" ehs1, THEN conjunct2, THEN conjunct1]
  show ?thesis unfolding t1 t2 t3 by (simp add: ehs1_fields)
qed

text \<open>
  Claim C10 as stated fails for the empty component name: no logged error has the
  component \<open>''\<close>, so \<open>clearErrors('')\<close> should remove nothing, yet it empties the
  log.
\<close>

theorem clearErrors_empty_component:
  "getErrorCount ehs1 '''' = 0
   \<and> errors ehs1 = [0, 1, 2, 3]
   \<and> errors (clearErrors (Some '''') ehs1) = []
   \<and> \<not> (errors (clearErrors (Some '''') ehs1) = errors ehs1)"
  by (simp add: clearErrors_def getErrorCount_def ehs1_fields)

section \<open>Orchestrator: properties\<close>

lemma length_filter_eq_all: "(length (filter P xs) = length xs) = (\<forall>x\<in>set xs. P x)"
proof (induction xs)
  case Nil
  then show ?case by simp
next
  case (Cons x xs)
  have "length (filter P xs) \<le> length xs" by simp
  then have "length (filter P xs) \<noteq> Suc (length xs)" by linarith
  with Cons show ?case by auto
qed

text \<open>
  Claim C4. The overall status is \<open>success\<close> exactly when the four stages report no
  error in total and every publish result succeeded; it is \<open>failure\<close> exactly when no
  publish result succeeded and the total error count is at least 3; and it is
  \<open>partial_success\<close> in every other case.
\<close>

theorem determineOverallStatus_cases:
  "((determineOverallStatus i c t p = Success) =
      (length (interpretation_errors i) + length (connection_errors c)
         + length (transformation_errors t) + length (publishing_errors p) = 0
       \<and> (\<forall>r \<in> set (results p). success r)))
   \<and> ((determineOverallStatus i c t p = Failure) =
      ((\<forall>r \<in> set (results p). \<not> success r)
       \<and> 3 \<le> length (interpretation_errors i) + length (connection_errors c)
         + length (transformation_errors t) + length (publishing_errors p)))
   \<and> ((determineOverallStatus i c t p = Partial_success) =
      (\<not> (length (interpretation_errors i) + length (connection_errors c)
         + length (transformation_errors t) + length (publishing_errors p) = 0
           \<and> (\<forall>r \<in> set (results p). success r))
       \<and> \<not> ((\<forall>r \<in> set (results p). \<not> success r)
           \<and> 3 \<le> length (interpretation_errors i) + length (connection_errors c)
         + length (transformation_errors t) + length (publishing_errors p))))"
proof -
  have e: "(filter success (results p) = []) = (\<forall>r \<in> set (results p). \<not> success r)"
    by (simp add: filter_empty_conv)
  have a: "(length (filter success (results p)) = length (results p))
            = (\<forall>r \<in> set (results p). success r)"
    by (rule length_filter_eq_all)
  show ?thesis
    unfolding determineOverallStatus_def Let_def a [symmetric] e [symmetric]
    by (auto simp: add.commute)
qed

theorem determineOverallStatus_cases_witness:
  "determineOverallStatus stage_i stage_c stage_t stage_p_ok = Success
   \<and> determineOverallStatus stage_i stage_c stage_t stage_p_failed = Failure
   \<and> determineOverallStatus stage_i stage_c stage_t stage_p_mixed = Partial_success"
proof -
  have 1: "determineOverallStatus stage_i stage_c stage_t stage_p_ok = Success"
    unfolding determineOverallStatus_cases [of stage_i stage_c stage_t stage_p_ok,
        THEN conjunct1]
    by (simp add: stage_i_def stage_c_def stage_t_def stage_p_ok_def)
  have 2: "determineOverallStatus stage_i stage_c stage_t stage_p_failed = Failure"
    unfolding determineOverallStatus_cases [of stage_i stage_c stage_t stage_p_failed,
        THEN conjunct2, THEN conjunct1]
    by (simp add: stage_i_def stage_c_def stage_t_def stage_p_failed_def)
  have 3: "determineOverallStatus stage_i stage_c stage_t stage_p_mixed = Partial_success"
    unfolding determineOverallStatus_cases [of stage_i stage_c stage_t stage_p_mixed,
        THEN conjunct2, THEN conjunct2]
    by (simp add: stage_i_def stage_c_def stage_t_def stage_p_mixed_def)
  from 1 2 3 show ?thesis by (intro conjI)
qed

section \<open>Publisher: properties\<close>

text \<open>The three recovery strategies, as functions of the next network outcomes.\<close>

lemma backoff_result:
  "retryWithBackoff req conn w =
    (if response_ok (net w (nfetch w))
     then (Inr (), w\<lparr>nfetch := Suc (nfetch w),
             trace := trace w @ [Sleep 1000,
               Fetch (url req) (req_method req) (headers req) (Some (req_body req))
                 (Some 30000)]\<rparr>)
     else if response_ok (net w (Suc (nfetch w)))
     then (Inr (), w\<lparr>nfetch := Suc (Suc (nfetch w)),
             trace := trace w @ [Sleep 1000,
               Fetch (url req) (req_method req) (headers req) (Some (req_body req))
                 (Some 30000),
               Sleep 3000,
               Fetch (url req) (req_method req) (headers req) (Some (req_body req))
                 (Some 30000)]\<rparr>)
     else (if response_ok (net w (Suc (Suc (nfetch w)))) then Inr ()
           else Inl (Error ''Retry with backoff failed''),
           w\<lparr>nfetch := Suc (Suc (Suc (nfetch w))),
             trace := trace w @ [Sleep 1000,
               Fetch (url req) (req_method req) (headers req) (Some (req_body req))
                 (Some 30000),
               Sleep 3000,
               Fetch (url req) (req_method req) (headers req) (Some (req_body req))
                 (Some 30000),
               Sleep 5000,
               Fetch (url req) (req_method req) (headers req) (Some (req_body req))
                 (Some 30000)]\<rparr>))"
  by (simp add: retryWithBackoff_def fetch_request_def fetch_def sleep_def)

lemma altAuth_result:
  "retryWithAlternativeAuth req conn w =
    (let hx = set_prop ''X-API-Key'' (tmpl (credentials conn))
                (delete_prop ''Authorization'' (headers req));
         hb = set_prop ''Authorization'' (''Bearer '' @ tmpl (credentials conn))
                (delete_prop ''Authorization'' (headers req))
     in
     if response_ok (net w (nfetch w))
     then (Inr (), w\<lparr>nfetch := Suc (nfetch w),
             trace := trace w @
               [Fetch (url req) (req_method req) hx (Some (req_body req)) (Some 30000)]\<rparr>)
     else if response_ok (net w (Suc (nfetch w)))
     then (Inr (), w\<lparr>nfetch := Suc (Suc (nfetch w)),
             trace := trace w @
               [Fetch (url req) (req_method req) hx (Some (req_body req)) (Some 30000),
                Fetch (url req) (req_method req) hb (Some (req_body req)) (Some 30000)]\<rparr>)
     else (if response_ok (net w (Suc (Suc (nfetch w)))) then Inr ()
           else Inl (Error ''Alternative authentication failed''),
           w\<lparr>nfetch := Suc (Suc (Suc (nfetch w))),
             trace := trace w @
               [Fetch (url req) (req_method req) hx (Some (req_body req)) (Some 30000),
                Fetch (url req) (req_method req) hb (Some (req_body req)) (Some 30000),
                Fetch (url req) (req_method req) hb (Some (req_body req)) (Some 30000)]\<rparr>))"
  by (simp add: retryWithAlternativeAuth_def fetch_def Let_def)

lemma simplified_result:
  "retryWithSimplifiedContent req conn w =
    ((case net w (nfetch w) of
        NetworkError e \<Rightarrow> Inl (Error ''Simplified content retry failed'')
      | Response ok st stt js \<Rightarrow> Inr ()),
     w\<lparr>nfetch := Suc (nfetch w),
        trace := trace w @
          [Fetch (url req) (req_method req) (headers req)
             (Some (fold (\<lambda>field sb.
                    if truthy (get_prop (req_body req) field)
                    then set_prop field (get_prop (req_body req) field) sb else sb)
                 [''title'', ''body'', ''type'', ''name'', ''description''] []))
             (Some 30000)]\<rparr>)"
  by (simp add: retryWithSimplifiedContent_def fetch_def Let_def split: fetch_outcome.splits)

lemma add_sucs:
  "n + 1 = Suc n" "n + 3 = Suc (Suc (Suc n))"
  "n + 4 = Suc (Suc (Suc (Suc n)))" "n + 5 = Suc (Suc (Suc (Suc (Suc n))))"
  "n + 6 = Suc (Suc (Suc (Suc (Suc (Suc n)))))"
  by simp_all

text \<open>
  Claim C5. Write \<open>ok i\<close> for "the \<open>i\<close>-th network outcome from now on is an \<open>ok\<close>
  response". \<open>retryWithBackoff\<close> waits 1000 ms and re-sends the identical request,
  then 3000 ms, then 5000 ms, stopping at the first \<open>ok\<close>: it sends at most three
  times, each send right after its delay, and it throws exactly when all three sends
  failed. The trace of \<open>attemptRecovery\<close> starts with that of \<open>retryWithBackoff\<close>; the
  alternative-auth requests (\<open>X-API-Key\<close>, then twice \<open>Bearer\<close>) appear only after the
  three backoff sends failed and the failure was logged, and the simplified-content
  request only after the three alternative-auth requests failed as well.
\<close>

theorem attemptRecovery_backoff_chain:
  "(let ok = (\<lambda>i. response_ok (net s (nfetch s + i)));
        send = Fetch (url req) (req_method req) (headers req) (Some (req_body req))
                 (Some 30000);
        altKey = Fetch (url req) (req_method req)
                   (set_prop ''X-API-Key'' (tmpl (credentials conn))
                      (delete_prop ''Authorization'' (headers req)))
                   (Some (req_body req)) (Some 30000);
        altBearer = Fetch (url req) (req_method req)
                   (set_prop ''Authorization'' (''Bearer '' @ tmpl (credentials conn))
                      (delete_prop ''Authorization'' (headers req)))
                   (Some (req_body req)) (Some 30000);
        simplified = Fetch (url req) (req_method req) (headers req)
                   (Some (fold (\<lambda>field sb.
                      if truthy (get_prop (req_body req) field)
                      then set_prop field (get_prop (req_body req) field) sb else sb)
                     [''title'', ''body'', ''type'', ''name'', ''description''] []))
                   (Some 30000);
        recovered = ConsoleLog (''Recovery successful for '' @ tmpl (name conn));
        failed = (\<lambda>m. ConsoleLog (''Recovery strategy failed for '' @ tmpl (name conn)
                                    @ '': '' @ m))
    in
      trace (snd (retryWithBackoff req conn s)) =
        trace s @ (if ok 0 then [Sleep 1000, send]
                   else if ok 1 then [Sleep 1000, send, Sleep 3000, send]
                   else [Sleep 1000, send, Sleep 3000, send, Sleep 5000, send])
    \<and> (fst (retryWithBackoff req conn s) = Inr ()) = (ok 0 \<or> ok 1 \<or> ok 2)
    \<and> (fst (retryWithBackoff req conn s) = Inl (Error ''Retry with backoff failed''))
         = (\<not> ok 0 \<and> \<not> ok 1 \<and> \<not> ok 2)
    \<and> trace (attemptRecoveryP req conn err s) =
        trace s @
        (if ok 0 then [Sleep 1000, send, recovered]
         else if ok 1 then [Sleep 1000, send, Sleep 3000, send, recovered]
         else if ok 2 then [Sleep 1000, send, Sleep 3000, send, Sleep 5000, send, recovered]
         else [Sleep 1000, send, Sleep 3000, send, Sleep 5000, send,
               failed ''Retry with backoff failed''] @
           (if ok 3 then [altKey, recovered]
            else if ok 4 then [altKey, altBearer, recovered]
            else if ok 5 then [altKey, altBearer, altBearer, recovered]
            else [altKey, altBearer, altBearer, failed ''Alternative authentication failed'',
                  simplified,
                  (case net s (nfetch s + 6) of
                     NetworkError e \<Rightarrow> failed ''Simplified content retry failed''
                   | Response ok' st stt js \<Rightarrow> recovered)])))"
  unfolding Let_def
  by (intro conjI)
     (simp_all add: attemptRecoveryP_def backoff_result altAuth_result simplified_result
        console_log_def Let_def add_sucs split: fetch_outcome.splits)

lemma pes_down_fields:
  "trace pes_down = []" "nfetch pes_down = 0"
  "net pes_down k = NetworkError (Error ''connect ECONNREFUSED'')"
  by (simp_all add: pes_down_def pes0_def)

theorem attemptRecovery_backoff_chain_witness:
  "take 7 (trace (attemptRecoveryP req0 (dest ''site_b'' ''https://b.example/'' True)
                    (Error ''connect ECONNREFUSED'') pes_down))
     = [Sleep 1000,
        Fetch (url req0) (req_method req0) (headers req0) (Some (req_body req0)) (Some 30000),
        Sleep 3000,
        Fetch (url req0) (req_method req0) (headers req0) (Some (req_body req0)) (Some 30000),
        Sleep 5000,
        Fetch (url req0) (req_method req0) (headers req0) (Some (req_body req0)) (Some 30000),
        ConsoleLog ''Recovery strategy failed for site_b: Retry with backoff failed'']
   \<and> length (trace (attemptRecoveryP req0 (dest ''site_b'' ''https://b.example/'' True)
                    (Error ''connect ECONNREFUSED'') pes_down)) = 13
   \<and> fst (retryWithBackoff req0 (dest ''site_b'' ''https://b.example/'' True) pes_down)
       = Inl (Error ''Retry with backoff failed'')"
proof -
  note th = attemptRecovery_backoff_chain [of pes_down req0
      "dest ''site_b'' ''https://b.example/'' True" "Error ''connect ECONNREFUSED''",
      unfolded Let_def]
  have t: "trace (attemptRecoveryP req0 (dest ''site_b'' ''https://b.example/'' True)
                    (Error ''connect ECONNREFUSED'') pes_down)
      = [Sleep 1000,
        Fetch (url req0) (req_method req0) (headers req0) (Some (req_body req0)) (Some 30000),
        Sleep 3000,
        Fetch (url req0) (req_method req0) (headers req0) (Some (req_body req0)) (Some 30000),
        Sleep 5000,
        Fetch (url req0) (req_method req0) (headers req0) (Some (req_body req0)) (Some 30000),
        ConsoleLog ''Recovery strategy failed for site_b: Retry with backoff failed'',
        Fetch (url req0) (req_method req0)
          (set_prop ''X-API-Key'' ''k-123'' (delete_prop ''Authorization'' (headers req0)))
          (Some (req_body req0)) (Some 30000),
        Fetch (url req0) (req_method req0)
          (set_prop ''Authorization'' ''Bearer k-123''
             (delete_prop ''Authorization'' (headers req0)))
          (Some (req_body req0)) (Some 30000),
        Fetch (url req0) (req_method req0)
          (set_prop ''Authorization'' ''Bearer k-123''
             (delete_prop ''Authorization'' (headers req0)))
          (Some (req_body req0)) (Some 30000),
        ConsoleLog ''Recovery strategy failed for site_b: Alternative authentication failed'',
        Fetch (url req0) (req_method req0) (headers req0)
          (Some (fold (\<lambda>field sb.
                      if truthy (get_prop (req_body req0) field)
                      then set_prop field (get_prop (req_body req0) field) sb else sb)
                     [''title'', ''body'', ''type'', ''name'', ''description''] []))
          (Some 30000),
        ConsoleLog ''Recovery strategy failed for site_b: Simplified content retry failed'']"
    unfolding th [THEN conjunct2, THEN conjunct2, THEN conjunct2]
    by (simp add: pes_down_fields dest_def tmpl_def)
  have b: "fst (retryWithBackoff req0 (dest ''site_b'' ''https://b.example/'' True) pes_down)
       = Inl (Error ''Retry with backoff failed'')"
    unfolding th [THEN conjunct2, THEN conjunct2, THEN conjunct1]
    by (simp add: pes_down_fields)
  show ?thesis unfolding t using b by simp
qed

text \<open>
  Whether a request can be generated for a destination depends neither on the clock
  nor on the network.
\<close>

lemma generateAPIRequests_isl:
  "isl (generateAPIRequests pc c schema n1) = isl (generateAPIRequests pc c schema n2)"
  by (simp add: generateAPIRequests_def createPostRequest_def createPutRequest_def
      createPatchRequest_def split: option.splits sum.splits)

lemma publishTo_isl:
  "isl (fst (publishTo pc c sch s)) =
     (case sch (name c) of
        None \<Rightarrow> True
      | Some schema \<Rightarrow> isl (generateAPIRequests pc c schema n))"
proof (cases "sch (name c)")
  case None
  then show ?thesis by (simp add: publishTo_def)
next
  case (Some schema)
  have "isl (fst (publishTo pc c sch s)) = isl (generateAPIRequests pc c schema (now_ms s))"
    using Some by (simp add: publishTo_def split: sum.splits prod.splits)
  also have "\<dots> = isl (generateAPIRequests pc c schema n)"
    by (rule generateAPIRequests_isl)
  finally show ?thesis using Some by simp
qed

lemma publishLoop_errors:
  "publishLoop cs pc sch rs es s = (rs', es', cs', s') \<Longrightarrow>
     length es' = length es
        + length (filter (\<lambda>c. case sch (name c) of
                                 None \<Rightarrow> True
                               | Some schema \<Rightarrow> isl (generateAPIRequests pc c schema n)) cs)"
proof (induction cs arbitrary: rs es s rs' es' cs' s')
  case Nil
  then show ?case by simp
next
  case (Cons c cs)
  show ?case
  proof (cases "publishTo pc c sch s")
    case (fields r c1 s1)
    show ?thesis
    proof (cases r)
      case (Inl e)
      with fields Cons.prems obtain cs2 where
        "publishLoop cs pc sch rs (es @ [\<lparr>timestamp = now_iso s1,
                             error = ''Failed to generate requests for ''
                                     @ tmpl (name c) @ '': '' @ message e,
                             severity = High,
                             component = ''PublishingExecutionService'',
                             resolved = False\<rparr>]) s1 = (rs', es', cs2, s')"
        by (auto split: prod.splits)
      from Cons.IH [OF this] publishTo_isl [of pc c sch s n] fields Inl
      show ?thesis by simp
    next
      case (Inr reqs)
      with fields Cons.prems obtain cs2 where
        "publishLoop cs pc sch (rs @ reqs) es s1 = (rs', es', cs2, s')"
        by (auto split: prod.splits)
      from Cons.IH [OF this] publishTo_isl [of pc c sch s n] fields Inr
      show ?thesis by simp
    qed
  qed
qed

text \<open>
  Claim C1. When at least one connection is active and targeted, the result's
  \<open>success\<close> flag is true exactly when the run's error list is empty or shorter than
  the list of target connections. The run's errors are one per target connection for
  which no schema is cached or the generation of the request throws (no suitable
  endpoint, an absent base URL, or a content type that names an inherited member of
  the endpoint table); failures of the requests themselves are recorded by the
  service, not in the run. So there are never more errors than targets, and with
  three targets and at most one error the flag is true.
\<close>

theorem executePublishing_partial_credit:
  assumes "targetConnections pc conns \<noteq> []"
  shows "success (fst (executePublishing pc conns sch s)) =
           (length (result_errors (fst (executePublishing pc conns sch s))) = 0
            \<or> length (result_errors (fst (executePublishing pc conns sch s)))
                < length (targetConnections pc conns))
       \<and> length (result_errors (fst (executePublishing pc conns sch s)))
            = length (filter (\<lambda>c. case sch (name c) of
                                     None \<Rightarrow> True
                                   | Some schema \<Rightarrow>
                                       isl (generateAPIRequests pc c schema (now_ms s)))
                        (targetConnections pc conns))
       \<and> length (result_errors (fst (executePublishing pc conns sch s)))
            \<le> length (targetConnections pc conns)
       \<and> (length (targetConnections pc conns) = 3
            \<and> length (result_errors (fst (executePublishing pc conns sch s))) \<le> 1
          \<longrightarrow> success (fst (executePublishing pc conns sch s)))"
proof -
  let ?ts = "targetConnections pc conns"
  obtain rs es cs s1 where loop: "publishLoop ?ts pc sch [] [] s = (rs, es, cs, s1)"
    by (cases "publishLoop ?ts pc sch [] [] s") auto
  have r: "fst (executePublishing pc conns sch s) =
      \<lparr>success = (length es = 0 \<or> length es < length ?ts), processed_content = pc,
       api_requests = rs, result_errors = es\<rparr>"
    using assms loop by (simp add: executePublishing_def Let_def)
  have n: "length es = length (filter (\<lambda>c. case sch (name c) of
                                     None \<Rightarrow> True
                                   | Some schema \<Rightarrow>
                                       isl (generateAPIRequests pc c schema (now_ms s))) ?ts)"
    using publishLoop_errors [OF loop, of "now_ms s"] by simp
  have "length es \<le> length ?ts" unfolding n by (rule length_filter_le)
  then show ?thesis unfolding r using n by auto
qed

lemma targets_dests0: "targetConnections pc0 dests0 = dests0"
  by (simp add: targetConnections_def pc0_def dests0_def dest_def)

lemma generate_pc0:
  "generateAPIRequests pc0 (dest n ep True) schema0 now =
   Inr [\<lparr>req_method = ''POST'', url = strip_trailing_slash ep @ ''/api/articles'',
          headers = [(''Content-Type'', ''application/json''),
                     (''User-Agent'', ''LLM-Backend-Framework/1.0''),
                     (''Authorization'', ''Bearer k-123'')],
          req_body = [(''title'', JStr ''Hello''), (''body'', JStr ''World''),
                      (''type'', JStr ''article''),
                      (''publishing_intent'', JStr ''immediate'')],
          auth = (Some ''api_key'', Some ''k-123'')\<rparr>]"
  by (simp add: generateAPIRequests_def findEndpointForContentType_def typeToEndpointMap_def
      pc0_def schema0_def dest_def createPostRequest_def baseUrl_of_def createAuthHeaders_def
      prepareRequestBody_def get_prop_def tmpl_def Let_def)

lemma errors_missing_schema:
  "result_errors (fst (executePublishing pc0 dests0 schemas_missing pes_up)) =
   [\<lparr>timestamp = ''2024-01-01T00:00:00.000Z'',
     error = ''Failed to generate requests for site_b: No schema found for frontend: site_b'',
     severity = High, component = ''PublishingExecutionService'', resolved = False\<rparr>]"
proof -
  have i: "intent pc0 = ''immediate''" by (simp add: pc0_def)
  have l: "length dests0 \<noteq> 0" by (simp add: dests0_def)
  show ?thesis
    apply (simp add: executePublishing_def targets_dests0 l Let_def)
    apply (simp add: dests0_def publishTo_def schemas_missing_def generate_pc0 i
        dest_def [THEN arg_cong, of name] tmpl_def)
    apply (simp add: pes_up_def pes0_def fetch_request_def fetch_def okResponse_def
        console_log_def strip_trailing_slash_def tmpl_def dest_def)
    done
qed

lemma generate_constructor:
  "generateAPIRequests pc_constructor c schema0 now
     = Inl (Error ''possiblePaths.some is not a function'')"
  by (simp add: generateAPIRequests_def findEndpointForContentType_def typeToEndpointMap_def
      objectPrototypeMembers_def pc_constructor_def schema0_def)

lemma targets_constructor:
  "targetConnections pc_constructor [dest ''site_a'' ''https://a.example/'' True]
     = [dest ''site_a'' ''https://a.example/'' True]"
  by (simp add: targetConnections_def pc_constructor_def pc0_def dest_def)

theorem executePublishing_partial_credit_witness:
  "length (targetConnections pc0 dests0) = 3
   \<and> length (result_errors (fst (executePublishing pc0 dests0 schemas_missing pes_up))) = 1
   \<and> success (fst (executePublishing pc0 dests0 schemas_missing pes_up)) = True
   \<and> length (result_errors (fst (executePublishing pc_constructor
         [dest ''site_a'' ''https://a.example/'' True] schemas_missing pes_up))) = 1
   \<and> success (fst (executePublishing pc_constructor
         [dest ''site_a'' ''https://a.example/'' True] schemas_missing pes_up)) = False"
proof -
  have ne: "targetConnections pc0 dests0 \<noteq> []"
    unfolding targets_dests0 by (simp add: dests0_def)
  have t: "length (targetConnections pc0 dests0) = 3"
    unfolding targets_dests0 by (simp add: dests0_def)
  have e: "length (result_errors (fst (executePublishing pc0 dests0 schemas_missing pes_up)))
           = 1"
    by (simp add: errors_missing_schema)
  have s3: "success (fst (executePublishing pc0 dests0 schemas_missing pes_up))"
    using executePublishing_partial_credit [OF ne, of schemas_missing pes_up] t e by simp
  have ne1: "targetConnections pc_constructor [dest ''site_a'' ''https://a.example/'' True]
             \<noteq> []"
    unfolding targets_constructor by simp
  note th = executePublishing_partial_credit [OF ne1, of schemas_missing pes_up,
      unfolded targets_constructor]
  have e1: "length (result_errors (fst (executePublishing pc_constructor
         [dest ''site_a'' ''https://a.example/'' True] schemas_missing pes_up))) = 1"
    unfolding th [THEN conjunct2, THEN conjunct1]
    by (simp add: schemas_missing_def generate_constructor dest_def [THEN arg_cong, of name])
  have s1: "success (fst (executePublishing pc_constructor
         [dest ''site_a'' ''https://a.example/'' True] schemas_missing pes_up)) = False"
    unfolding th [THEN conjunct1] e1 by simp
  from t e s3 e1 s1 show ?thesis by simp
qed

lemma executePublishing_empty:
  assumes "targetConnections pc conns = []"
  shows "executePublishing pc conns sch s =
     (\<lparr>success = False, processed_content = pc, api_requests = [],
       result_errors =
         [\<lparr>timestamp = now_iso s,
           error = ''Publishing execution failed: ''
                   @ ''No active frontend connections found for publishing'',
           severity = Critical, component = ''PublishingExecutionService'',
           resolved = False\<rparr>]\<rparr>,
      [],
      s\<lparr>executionHistory := executionHistory s @
         [\<lparr>success = False, processed_content = pc, api_requests = [],
           result_errors =
             [\<lparr>timestamp = now_iso s,
               error = ''Publishing execution failed: ''
                       @ ''No active frontend connections found for publishing'',
               severity = Critical, component = ''PublishingExecutionService'',
               resolved = False\<rparr>]\<rparr>]\<rparr>)"
  using assms by (simp add: executePublishing_def Let_def)

text \<open>
  Claim C6, as the code has it. When no connection is both active and targeted,
  \<open>executePublishing\<close> sends nothing and returns a \<open>ProcessingResult\<close> with
  \<open>success = false\<close>, no API request and exactly one error, of critical severity; it
  appends that result to the execution history, and changes nothing else.
\<close>

theorem executePublishing_no_targets:
  assumes "targetConnections pc conns = []"
  shows "success (fst (executePublishing pc conns sch s)) = False
       \<and> api_requests (fst (executePublishing pc conns sch s)) = []
       \<and> result_errors (fst (executePublishing pc conns sch s)) =
           [\<lparr>timestamp = now_iso s,
             error = ''Publishing execution failed: ''
                     @ ''No active frontend connections found for publishing'',
             severity = Critical, component = ''PublishingExecutionService'',
             resolved = False\<rparr>]
       \<and> snd (snd (executePublishing pc conns sch s)) =
           s\<lparr>executionHistory := executionHistory s
                @ [fst (executePublishing pc conns sch s)]\<rparr>
       \<and> trace (snd (snd (executePublishing pc conns sch s))) = trace s
       \<and> nfetch (snd (snd (executePublishing pc conns sch s))) = nfetch s"
  unfolding executePublishing_empty [OF assms] by simp

lemma no_targets_inactive:
  "targetConnections pc0 [dest ''site_a'' ''https://a.example/'' False] = []"
  by (simp add: targetConnections_def dest_def)

theorem executePublishing_no_targets_witness:
  "length (result_errors (fst (executePublishing pc0
       [dest ''site_a'' ''https://a.example/'' False] schemas_missing pes_up))) = 1
   \<and> success (fst (executePublishing pc0
       [dest ''site_a'' ''https://a.example/'' False] schemas_missing pes_up)) = False
   \<and> length (executionHistory (snd (snd (executePublishing pc0
       [dest ''site_a'' ''https://a.example/'' False] schemas_missing pes_up)))) = 1
   \<and> trace (snd (snd (executePublishing pc0
       [dest ''site_a'' ''https://a.example/'' False] schemas_missing pes_up))) = []"
proof -
  note th = executePublishing_no_targets [OF no_targets_inactive, of schemas_missing pes_up]
  have h: "executionHistory pes_up = []" "trace pes_up = []"
    by (simp_all add: pes_up_def pes0_def)
  have 1: "length (result_errors (fst (executePublishing pc0
       [dest ''site_a'' ''https://a.example/'' False] schemas_missing pes_up))) = 1"
    unfolding th [THEN conjunct2, THEN conjunct2, THEN conjunct1] by simp
  have 2: "success (fst (executePublishing pc0
       [dest ''site_a'' ''https://a.example/'' False] schemas_missing pes_up)) = False"
    using th by (rule conjunct1)
  have 3: "length (executionHistory (snd (snd (executePublishing pc0
       [dest ''site_a'' ''https://a.example/'' False] schemas_missing pes_up)))) = 1"
    unfolding th [THEN conjunct2, THEN conjunct2, THEN conjunct2, THEN conjunct1]
    by (simp add: h)
  have 4: "trace (snd (snd (executePublishing pc0
       [dest ''site_a'' ''https://a.example/'' False] schemas_missing pes_up))) = []"
    unfolding th [THEN conjunct2, THEN conjunct2, THEN conjunct2, THEN conjunct2,
        THEN conjunct1]
    by (simp add: h)
  from 1 2 3 4 show ?thesis by (intro conjI)
qed

text \<open>
  Claim C6 as stated (one error, and no \<open>ProcessingResult\<close> contributed) fails: with
  one inactive destination the call records a \<open>ProcessingResult\<close> in the execution
  history, which was empty before.
\<close>

theorem executePublishing_no_targets_history:
  "\<not> (length (result_errors (fst (executePublishing pc0
          [dest ''site_a'' ''https://a.example/'' False] schemas_missing pes_up))) = 1
      \<and> executionHistory (snd (snd (executePublishing pc0
          [dest ''site_a'' ''https://a.example/'' False] schemas_missing pes_up)))
         = executionHistory pes_up)"
  unfolding executePublishing_empty [OF no_targets_inactive]
  by (simp add: pes_up_def pes0_def)

section \<open>ConnectionManager: properties\<close>

lemma validateConnection_invalid:
  assumes "falsy_string (name conn) \<or> falsy_string (api_endpoint conn)
           \<or> falsy_string (auth_type conn) \<or> falsy_string (credentials conn)
           \<or> auth_type conn \<notin> {Some ''oauth2'', Some ''api_key'', Some ''jwt''}
           \<or> \<not> url_ok s (tmpl (api_endpoint conn))"
  shows "\<exists>msg. validateConnection conn s =
           (False, s\<lparr>conn_errors := conn_errors s @ [connError (now_iso s) High msg]\<rparr>)"
proof (cases "List.find (\<lambda>field. falsy_string (field_value conn field))
                [''name'', ''api_endpoint'', ''auth_type'', ''credentials'']")
  case (Some field)
  have "validateConnection conn s =
          (False, s\<lparr>conn_errors := conn_errors s @
             [connError (now_iso s) High (''Missing required field: '' @ field)]\<rparr>)"
    unfolding validateConnection_def Some by simp
  then show ?thesis by blast
next
  case None
  have nf: "\<not> (\<exists>x. x \<in> set [''name'', ''api_endpoint'', ''auth_type'', ''credentials'']
                 \<and> falsy_string (field_value conn x))"
    using None unfolding find_None_iff .
  have "\<not> falsy_string (field_value conn ''name'')"
    "\<not> falsy_string (field_value conn ''api_endpoint'')"
    "\<not> falsy_string (field_value conn ''auth_type'')"
    "\<not> falsy_string (field_value conn ''credentials'')"
    using nf by auto
  then have "\<not> falsy_string (name conn)" "\<not> falsy_string (api_endpoint conn)"
    "\<not> falsy_string (auth_type conn)" "\<not> falsy_string (credentials conn)"
    by (simp_all add: field_value_def)
  with assms have bad: "auth_type conn \<notin> {Some ''oauth2'', Some ''api_key'', Some ''jwt''}
           \<or> \<not> url_ok s (tmpl (api_endpoint conn))" by blast
  show ?thesis
  proof (cases "auth_type conn \<in> {Some ''oauth2'', Some ''api_key'', Some ''jwt''}")
    case False
    then have "validateConnection conn s =
          (False, s\<lparr>conn_errors := conn_errors s @
             [connError (now_iso s) High
                (''Invalid auth type: '' @ tmpl (auth_type conn))]\<rparr>)"
      unfolding validateConnection_def None by simp
    then show ?thesis by blast
  next
    case True
    with bad have "\<not> url_ok s (tmpl (api_endpoint conn))" by blast
    with True have "validateConnection conn s =
          (False, s\<lparr>conn_errors := conn_errors s @
             [connError (now_iso s) High
                (''Invalid API endpoint URL: '' @ tmpl (api_endpoint conn))]\<rparr>)"
      unfolding validateConnection_def None by simp
    then show ?thesis by blast
  qed
qed

text \<open>
  Claim C7. \<open>manageConnection\<close> never throws: it always returns a boolean (and its
  \<open>try\<close> block never reaches the handler). When a required field (name, endpoint, auth
  type, credentials) is absent or empty, or the auth type is not one of \<open>oauth2\<close>,
  \<open>api_key\<close>, \<open>jwt\<close>, or the endpoint does not parse as a URL, it returns \<open>false\<close>, its
  only effect is one new error of high severity, and no request is sent: the trace and
  the request counter are unchanged, and so are the connection and the caches.
\<close>

theorem manageConnection_validation:
  "(\<exists>b c1 s1. manageConnection conn s = (Inr b, c1, s1))
   \<and> (\<exists>b c1 s1. manageConnection_try conn s = (Inr b, c1, s1))
   \<and> (falsy_string (name conn) \<or> falsy_string (api_endpoint conn)
        \<or> falsy_string (auth_type conn) \<or> falsy_string (credentials conn)
        \<or> auth_type conn \<notin> {Some ''oauth2'', Some ''api_key'', Some ''jwt''}
        \<or> \<not> url_ok s (tmpl (api_endpoint conn))
      \<longrightarrow> (\<exists>msg. manageConnection conn s =
                  (Inr False, conn,
                   s\<lparr>conn_errors := conn_errors s @
                        [\<lparr>timestamp = now_iso s, error = msg, severity = High,
                          component = ''FrontendConnectionService'', resolved = False\<rparr>]\<rparr>))
          \<and> trace (snd (snd (manageConnection conn s))) = trace s
          \<and> nfetch (snd (snd (manageConnection conn s))) = nfetch s)"
proof (intro conjI impI)
  show t: "\<exists>b c1 s1. manageConnection_try conn s = (Inr b, c1, s1)"
    by (auto simp: manageConnection_try_def Let_def split: prod.splits bool.splits)
  then show "\<exists>b c1 s1. manageConnection conn s = (Inr b, c1, s1)"
    by (auto simp: manageConnection_def)
next
  assume inv: "falsy_string (name conn) \<or> falsy_string (api_endpoint conn)
        \<or> falsy_string (auth_type conn) \<or> falsy_string (credentials conn)
        \<or> auth_type conn \<notin> {Some ''oauth2'', Some ''api_key'', Some ''jwt''}
        \<or> \<not> url_ok s (tmpl (api_endpoint conn))"
  from validateConnection_invalid [OF inv] obtain msg where
    v: "validateConnection conn s =
          (False, s\<lparr>conn_errors := conn_errors s @ [connError (now_iso s) High msg]\<rparr>)"
    by blast
  have m: "manageConnection conn s =
      (Inr False, conn, s\<lparr>conn_errors := conn_errors s @ [connError (now_iso s) High msg]\<rparr>)"
    by (simp add: manageConnection_def manageConnection_try_def v)
  show "\<exists>msg. manageConnection conn s =
                  (Inr False, conn,
                   s\<lparr>conn_errors := conn_errors s @
                        [\<lparr>timestamp = now_iso s, error = msg, severity = High,
                          component = ''FrontendConnectionService'', resolved = False\<rparr>]\<rparr>)"
    using m by (auto simp: connError_def)
  show "trace (snd (snd (manageConnection conn s))) = trace s" by (simp add: m)
  show "nfetch (snd (snd (manageConnection conn s))) = nfetch s" by (simp add: m)
qed

theorem manageConnection_validation_witness:
  "fst (manageConnection dest_basic fcs0) = Inr False
   \<and> fst (snd (manageConnection dest_basic fcs0)) = dest_basic
   \<and> map severity (conn_errors (snd (snd (manageConnection dest_basic fcs0)))) = [High]
   \<and> trace (snd (snd (manageConnection dest_basic fcs0))) = []"
proof -
  have bad: "falsy_string (name dest_basic) \<or> falsy_string (api_endpoint dest_basic)
        \<or> falsy_string (auth_type dest_basic) \<or> falsy_string (credentials dest_basic)
        \<or> auth_type dest_basic \<notin> {Some ''oauth2'', Some ''api_key'', Some ''jwt''}
        \<or> \<not> url_ok fcs0 (tmpl (api_endpoint dest_basic))"
    by (simp add: dest_basic_def dest_def)
  note th = manageConnection_validation [of dest_basic fcs0, THEN conjunct2, THEN conjunct2,
      rule_format, OF bad]
  from th obtain msg where
    m: "manageConnection dest_basic fcs0 =
          (Inr False, dest_basic,
           fcs0\<lparr>conn_errors := conn_errors fcs0 @
                [\<lparr>timestamp = now_iso fcs0, error = msg, severity = High,
                  component = ''FrontendConnectionService'', resolved = False\<rparr>]\<rparr>)"
    by blast
  show ?thesis unfolding m by (simp add: fcs0_def)
qed

end
